theory Spec2Isabelle
  imports Main
begin

section \<open>Observable actions, abrupt termination and the collaborators' answers\<close>

text \<open>
  The file embeds \<^verbatim>\<open>src/qt/netboxwallet.cpp\<close>: the executor \<^verbatim>\<open>BitcoinCore\<close> that runs on
  the worker thread, the controller \<^verbatim>\<open>BitcoinApplication\<close> on the interactive thread, and
  \<^verbatim>\<open>main\<close>. Every call that leaves the file (engine, Qt, window, payment server), every
  emitted signal and every \<^verbatim>\<open>qDebug\<close> line is recorded, in program order, in a trace.
  The constructors carry the names the source uses for the calls.
\<close>

datatype exn = StdException string | OtherException

datatype abrupt = Throw exn | ProcessExit int | Return int | NullDeref | AssertFailed

datatype engine_fn =
    AppInit2
  | Interrupt
  | PrepareShutdown
  | Shutdown
  | StartShutdown
  | CExplicitNetCleanup_callCleanup
  | QProcess_startDetached string "string list"
  | qApp_quit
  | WinShutdownMonitor_shutdownCompleted
  | PrintExceptionContinue "string option" string

datatype signal =
    initializeResult int
  | runawayException string
  | requestedInitialize
  | requestedShutdown
  | applicationInitialized
  | splashFinished

datatype alloc_fn =
    new_BitcoinApplication
  | new_QThread
  | new_BitcoinCore
  | new_BitcoinGUI
  | new_QTimer
  | new_OptionsModel
  | new_PaymentServer
  | new_SplashScreen
  | new_ClientModel
  | new_WalletModel
  | new_WinShutdownMonitor
  | delete_walletModel
  | delete_clientModel

datatype gui_fn =
    executor_moveToThread
  | coreThread_start
  | pollShutdownTimer_start int
  | pollShutdownTimer_stop
  | splash_show
  | QApplication_processEvents
  | MilliSleep int
  | MacDockIconHandler_toggleForegroundApp bool
  | window_hide
  | window_setClientModel bool
  | window_removeAllWallets
  | window_addWallet
  | window_setCurrentWallet
  | window_show
  | window_showMinimized
  | ShutdownWindow_showShutdownWindow
  | LogPrintf string
  | PaymentServer_LoadRootCAs
  | paymentServer_setOptionsModel
  | QTimer_singleShot_uiReady int
  | MessageBoxW string string
  | QMessageBox_critical string string
  | exit_call int
  | QCoreApplication_exit int

datatype main_fn =
    install_fault_handlers
  | SetupEnvironment
  | ParseParameters
  | Q_INIT_RESOURCE string
  | qputenv string string
  | qt_application_setup
  | initTranslations
  | HelpMessageDialog_showOrPrint
  | Intro_pickDataDirectory
  | ReadConfigFile
  | PaymentServer_ipcParseCommandLine
  | NetworkStyle_instantiate
  | masternodeConfig_read
  | PaymentServer_ipcSendCommandLine
  | AllowSetForegroundWindow
  | PaymentServer_ipcSendCommand string
  | install_event_filters
  | qInstallMessageHandler
  | WinShutdownMonitor_registerShutdownBlockReason

text \<open>
  \<open>qDebug f m\<close> is \<^verbatim>\<open>qDebug() << __func__ << m\<close> inside the function \<open>f\<close>; \<open>qDebug_int\<close>
  has a number streamed after the text. \<open>Emit\<close> is a Qt \<^verbatim>\<open>emit\<close>.
\<close>

datatype event =
    qDebug string string
  | qDebug_int string string int
  | Engine engine_fn
  | Emit signal
  | Alloc alloc_fn
  | Gui gui_fn
  | Startup main_fn

record proc =
  trace :: "event list"

text \<open>
  \<^verbatim>\<open>class BitcoinCore\<close>: its only data member is the latch \<^verbatim>\<open>bool execute_restart\<close>. The
  value \<open>None\<close> stands for a member that has never been written.
\<close>

record BitcoinCore = proc +
  execute_restart :: "bool option"

record QTimer =
  isActive :: bool
  interval :: int

text \<open>
  \<^verbatim>\<open>class BitcoinApplication\<close>: a pointer member is \<open>None\<close> when it is the null pointer. The
  members \<^verbatim>\<open>paymentServer\<close> and \<^verbatim>\<open>walletModel\<close> exist in wallet builds only and are unused
  otherwise.
\<close>

record BitcoinApplication = proc +
  coreThread :: "unit option"
  optionsModel :: "unit option"
  clientModel :: "unit option"
  window :: "unit option"
  pollShutdownTimer :: "QTimer option"
  shutdownMonitor :: "unit option"
  paymentServer :: "unit option"
  walletModel :: "unit option"
  shutdownAllowed :: bool
  returnValue :: int

text \<open>
  What the code around this file answers during one operation. The functions are declared
  in headers that are not part of the file, so their results are parameters:
  \<^item> \<open>throws\<close>: the exception, if any, that a call raises;
  \<^item> \<open>AppInit2_rv\<close>, \<open>ResyncNeeded\<close>, \<open>ShutdownRequested\<close>, \<open>RestartRequested\<close>: the engine;
  \<^item> \<open>buildParameterlist\<close>: \<^verbatim>\<open>RPCConsole::buildParameterlist\<close>;
  \<^item> \<open>FormatException\<close>: the text \<^verbatim>\<open>PrintExceptionContinue\<close> leaves in \<^verbatim>\<open>strMiscWarning\<close>;
  \<^item> \<open>indeterminate\<close>: what reading a never written \<^verbatim>\<open>bool\<close> member yields;
  \<^item> \<open>processEvents_effect\<close>: what the handlers dispatched by the \<open>n\<close>-th call of
    \<^verbatim>\<open>processEvents()\<close> inside \<^verbatim>\<open>requestShutdown\<close> do to the controller;
  \<^item> \<open>Q_OS_WIN\<close>, \<open>Q_OS_MAC\<close>, \<open>WIN32\<close>, \<open>ENABLE_WALLET\<close>: the preprocessor symbols of the build.
\<close>

record env =
  throws :: "event \<Rightarrow> exn option"
  AppInit2_rv :: int
  ResyncNeeded :: bool
  ShutdownRequested :: bool
  RestartRequested :: bool
  buildParameterlist :: "string \<Rightarrow> string list"
  applicationFilePath :: string
  FormatException :: "string option \<Rightarrow> string \<Rightarrow> string"
  indeterminate :: bool
  GetBoolArg :: "string \<Rightarrow> bool \<Rightarrow> bool"
  pwalletMain :: bool
  isShuttingDown :: bool
  processEvents_effect :: "nat \<Rightarrow> BitcoinApplication \<Rightarrow> BitcoinApplication"
  Q_OS_WIN :: bool
  Q_OS_MAC :: bool
  WIN32 :: bool
  ENABLE_WALLET :: bool

text \<open>The answers \<^verbatim>\<open>main\<close> gets before the event loop starts.\<close>

record startup =
  help_requested :: bool
  pickDataDirectory_rv :: bool
  datadir_is_directory :: bool
  datadir_arg :: string
  SelectParamsFromCommandLine_rv :: bool
  networkStyle_isNull :: bool
  masternodeConfig_read_rv :: bool
  masternodeConfig_strErr :: string
  ipcSendCommandLine_rv :: bool
  ipcSendCommand_rv :: "string \<Rightarrow> bool"

subsection \<open>Statements\<close>

text \<open>
  A statement maps the state to the state after it, with \<open>Some x\<close> when it ends abruptly:
  a C++ exception in flight, \<^verbatim>\<open>exit()\<close>, \<^verbatim>\<open>return\<close> from \<^verbatim>\<open>main\<close>, a null pointer
  dereference or a failed \<^verbatim>\<open>assert\<close>. Writes made before the abrupt end persist.
\<close>

type_synonym 's comp = "'s \<Rightarrow> abrupt option \<times> 's"

definition skip :: "'s comp" where
  "skip s = (None, s)"

definition assign :: "('s \<Rightarrow> 's) \<Rightarrow> 's comp" where
  "assign f s = (None, f s)"

definition abort :: "abrupt \<Rightarrow> 's comp" where
  "abort x s = (Some x, s)"

definition log :: "event \<Rightarrow> ('a proc_scheme) comp" where
  "log e s = (None, s\<lparr>trace := trace s @ [e]\<rparr>)"

definition call :: "env \<Rightarrow> event \<Rightarrow> ('a proc_scheme) comp" where
  "call env e s = (map_option Throw (throws env e), s\<lparr>trace := trace s @ [e]\<rparr>)"

primrec block :: "'s comp list \<Rightarrow> 's comp" where
  "block [] s = (None, s)"
| "block (c # cs) s =
     (case c s of (None, s') \<Rightarrow> block cs s' | (Some x, s') \<Rightarrow> (Some x, s'))"

definition if_then :: "bool \<Rightarrow> 's comp \<Rightarrow> 's comp" where
  "if_then b c = (if b then c else skip)"

text \<open>
  \<^verbatim>\<open>try { body } catch (std::exception& e) { handler(&e); } catch (...) { handler(NULL); }\<close>:
  \<open>caught e\<close> is the pointer the handler gets, shown by the text of \<^verbatim>\<open>e.what()\<close>.
\<close>

fun caught :: "exn \<Rightarrow> string option" where
  "caught (StdException what) = Some what"
| "caught OtherException = None"

definition try_catch :: "'s comp \<Rightarrow> (string option \<Rightarrow> 's comp) \<Rightarrow> 's comp" where
  "try_catch body handler s =
     (case body s of
        (Some (Throw e), s') \<Rightarrow> handler (caught e) s'
      | r \<Rightarrow> r)"

text \<open>\<open>unchanged f c\<close>: the statement \<open>c\<close> never changes what \<open>f\<close> reads from the state.\<close>

definition unchanged :: "('s \<Rightarrow> 'v) \<Rightarrow> 's comp \<Rightarrow> bool" where
  "unchanged f c = (\<forall>s. f (snd (c s)) = f s)"

text \<open>\<open>records_only A c\<close>: whatever \<open>c\<close> adds to the trace is an event of \<open>A\<close>.\<close>

definition records_only :: "event set \<Rightarrow> ('a proc_scheme) comp \<Rightarrow> bool" where
  "records_only A c = (\<forall>s e. e \<in> set (trace (snd (c s))) \<longrightarrow> e \<in> set (trace s) \<or> e \<in> A)"

text \<open>\<open>appends c\<close>: \<open>c\<close> only adds to the end of the trace.\<close>

definition appends :: "('a proc_scheme) comp \<Rightarrow> bool" where
  "appends c = (\<forall>s. \<exists>t. trace (snd (c s)) = trace s @ t)"

section \<open>The executor: BitcoinCore\<close>

text \<open>\<^verbatim>\<open>BitcoinCore::BitcoinCore() : QObject() {}\<close> writes no member.\<close>

definition BitcoinCore_ctor :: BitcoinCore where
  "BitcoinCore_ctor = \<lparr>trace = [], execute_restart = None\<rparr>"

definition read_execute_restart :: "env \<Rightarrow> BitcoinCore \<Rightarrow> bool" where
  "read_execute_restart env w =
     (case execute_restart w of Some b \<Rightarrow> b | None \<Rightarrow> indeterminate env)"

definition BitcoinCore_handleRunawayException :: "env \<Rightarrow> string option \<Rightarrow> BitcoinCore comp" where
  "BitcoinCore_handleRunawayException env e =
     block [log (Engine (PrintExceptionContinue e ''Runaway exception'')),
            log (Emit (runawayException (FormatException env e ''Runaway exception'')))]"

text \<open>
  Each slot is a \<^verbatim>\<open>try\<close> block with the two handlers of \<open>try_catch\<close>; the contents of the
  block are named \<open>..._try\<close>. In \<^verbatim>\<open>restart\<close> the latch is read and cleared before the block; in
  \<^verbatim>\<open>initialize\<close> it is set before the block; in \<^verbatim>\<open>shutdown\<close> the test of
  \<^verbatim>\<open>RestartRequested()\<close> stands before the block.
\<close>

definition BitcoinCore_restart_try :: "env \<Rightarrow> string list \<Rightarrow> BitcoinCore comp" where
  "BitcoinCore_restart_try env args =
     block [log (qDebug ''restart'' '': Running Restart in thread''),
            call env (Engine Interrupt),
            call env (Engine PrepareShutdown),
            log (qDebug ''restart'' '': Shutdown finished''),
            call env (Engine CExplicitNetCleanup_callCleanup),
            call env (Engine (QProcess_startDetached (applicationFilePath env) args)),
            log (qDebug ''restart'' '': Restart initiated...''),
            log (qDebug_int ''restart'' '': Shutdown result: '' 1),
            call env (Engine qApp_quit),
            if_then (Q_OS_WIN env) (call env (Engine WinShutdownMonitor_shutdownCompleted))]"

definition BitcoinCore_restart :: "env \<Rightarrow> string list \<Rightarrow> BitcoinCore comp" where
  "BitcoinCore_restart env args w =
     (if read_execute_restart env w then
        block [assign (\<lambda>w. w\<lparr>execute_restart := Some False\<rparr>),
               try_catch (BitcoinCore_restart_try env args)
                 (BitcoinCore_handleRunawayException env)] w
      else (None, w))"

definition BitcoinCore_initialize_try :: "env \<Rightarrow> BitcoinCore comp" where
  "BitcoinCore_initialize_try env =
     block [log (qDebug ''initialize'' '': Running AppInit2 in thread''),
            call env (Engine AppInit2),
            (if ResyncNeeded env then
               if_then (\<not> ShutdownRequested env)
                 (BitcoinCore_restart env (buildParameterlist env ''-resync''))
             else log (Emit (initializeResult (AppInit2_rv env))))]"

definition BitcoinCore_initialize :: "env \<Rightarrow> BitcoinCore comp" where
  "BitcoinCore_initialize env =
     block [assign (\<lambda>w. w\<lparr>execute_restart := Some True\<rparr>),
            try_catch (BitcoinCore_initialize_try env)
              (BitcoinCore_handleRunawayException env)]"

definition BitcoinCore_shutdown_try :: "env \<Rightarrow> BitcoinCore comp" where
  "BitcoinCore_shutdown_try env =
     block [log (qDebug ''shutdown'' '': Running Shutdown in thread''),
            call env (Engine Interrupt),
            call env (Engine Shutdown),
            log (qDebug ''shutdown'' '': Shutdown finished''),
            log (qDebug_int ''shutdown'' '': Shutdown result: '' 1),
            call env (Engine qApp_quit),
            if_then (Q_OS_WIN env) (call env (Engine WinShutdownMonitor_shutdownCompleted))]"

definition BitcoinCore_shutdown :: "env \<Rightarrow> BitcoinCore comp" where
  "BitcoinCore_shutdown env =
     (if RestartRequested env then skip
      else try_catch (BitcoinCore_shutdown_try env) (BitcoinCore_handleRunawayException env))"

text \<open>
  The three slots are connected (in \<^verbatim>\<open>startThread\<close>) to \<^verbatim>\<open>requestedInitialize\<close>,
  \<^verbatim>\<open>requestedShutdown\<close> and \<^verbatim>\<open>requestedRestart(QStringList)\<close>; the worker thread's event
  loop runs the queued invocations one after the other.
\<close>

datatype request = Req_initialize | Req_shutdown | Req_restart "string list"

fun BitcoinCore_slot :: "env \<Rightarrow> request \<Rightarrow> BitcoinCore comp" where
  "BitcoinCore_slot env Req_initialize = BitcoinCore_initialize env"
| "BitcoinCore_slot env Req_shutdown = BitcoinCore_shutdown env"
| "BitcoinCore_slot env (Req_restart args) = BitcoinCore_restart env args"

fun BitcoinCore_deliver :: "(request \<times> env) list \<Rightarrow> BitcoinCore comp" where
  "BitcoinCore_deliver [] w = (None, w)"
| "BitcoinCore_deliver ((r, env) # rs) w =
     (case BitcoinCore_slot env r w of
        (None, w') \<Rightarrow> BitcoinCore_deliver rs w'
      | (Some x, w') \<Rightarrow> (Some x, w'))"

text \<open>Entries into the guarded body of \<^verbatim>\<open>restart\<close>, and process launches, in a trace.\<close>

fun restart_entered :: "event \<Rightarrow> bool" where
  "restart_entered (qDebug f m) = (f = ''restart'' \<and> m = '': Running Restart in thread'')"
| "restart_entered _ = False"

fun process_launched :: "event \<Rightarrow> bool" where
  "process_launched (Engine (QProcess_startDetached p args)) = True"
| "process_launched _ = False"

definition count_events :: "(event \<Rightarrow> bool) \<Rightarrow> event list \<Rightarrow> nat" where
  "count_events P t = length (filter P t)"

text \<open>
  The events of kind \<open>P\<close> so far, plus one as long as the latch does not read \<^verbatim>\<open>false\<close>: a
  bound on the events of kind \<open>P\<close> that the trace can ever hold.
\<close>

definition restart_budget :: "(event \<Rightarrow> bool) \<Rightarrow> BitcoinCore \<Rightarrow> nat" where
  "restart_budget P w =
     count_events P (trace w) + (if execute_restart w = Some False then 0 else 1)"

section \<open>The controller: BitcoinApplication\<close>

text \<open>The constructor's member initialiser list.\<close>

definition BitcoinApplication_ctor :: BitcoinApplication where
  "BitcoinApplication_ctor =
     \<lparr>trace = [], coreThread = None, optionsModel = None, clientModel = None, window = None,
      pollShutdownTimer = None, shutdownMonitor = None, paymentServer = None,
      walletModel = None, shutdownAllowed = True, returnValue = 0\<rparr>"

definition EXIT_FAILURE :: int where
  "EXIT_FAILURE = 1"

text \<open>\<^verbatim>\<open>exit(n)\<close> ends the process at once.\<close>

definition exit_process :: "int \<Rightarrow> ('a proc_scheme) comp" where
  "exit_process n = block [log (Gui (exit_call n)), abort (ProcessExit n)]"

text \<open>\<^verbatim>\<open>window->f(...)\<close>, \<^verbatim>\<open>paymentServer->f(...)\<close>: the pointer is dereferenced.\<close>

definition on_window :: "env \<Rightarrow> gui_fn \<Rightarrow> BitcoinApplication comp" where
  "on_window env f a = (if window a = None then (Some NullDeref, a) else call env (Gui f) a)"

definition on_paymentServer :: "env \<Rightarrow> gui_fn \<Rightarrow> BitcoinApplication comp" where
  "on_paymentServer env f a =
     (if paymentServer a = None then (Some NullDeref, a) else call env (Gui f) a)"

definition pollShutdownTimer_start_ms :: "env \<Rightarrow> int \<Rightarrow> BitcoinApplication comp" where
  "pollShutdownTimer_start_ms env ms a =
     (case pollShutdownTimer a of
        None \<Rightarrow> (Some NullDeref, a)
      | Some t \<Rightarrow>
          block [call env (Gui (pollShutdownTimer_start ms)),
                 assign (\<lambda>a. a\<lparr>pollShutdownTimer := Some (t\<lparr>isActive := True, interval := ms\<rparr>)\<rparr>)] a)"

definition pollShutdownTimer_stop_now :: "env \<Rightarrow> BitcoinApplication comp" where
  "pollShutdownTimer_stop_now env a =
     (case pollShutdownTimer a of
        None \<Rightarrow> (Some NullDeref, a)
      | Some t \<Rightarrow>
          block [call env (Gui pollShutdownTimer_stop),
                 assign (\<lambda>a. a\<lparr>pollShutdownTimer := Some (t\<lparr>isActive := False\<rparr>)\<rparr>)] a)"

definition createPaymentServer :: "env \<Rightarrow> BitcoinApplication comp" where
  "createPaymentServer env =
     block [call env (Alloc new_PaymentServer), assign (\<lambda>a. a\<lparr>paymentServer := Some ()\<rparr>)]"

definition createOptionsModel :: "env \<Rightarrow> BitcoinApplication comp" where
  "createOptionsModel env =
     block [call env (Alloc new_OptionsModel), assign (\<lambda>a. a\<lparr>optionsModel := Some ()\<rparr>)]"

text \<open>
  \<^verbatim>\<open>createWindow\<close>: the timer is a child of the window; the \<^verbatim>\<open>connect\<close> calls fix which slot
  a signal reaches (they are what \<open>BitcoinApplication_exec\<close> dispatches) and record nothing.
\<close>

definition createWindow :: "env \<Rightarrow> BitcoinApplication comp" where
  "createWindow env =
     block [call env (Alloc new_BitcoinGUI),
            assign (\<lambda>a. a\<lparr>window := Some ()\<rparr>),
            call env (Alloc new_QTimer),
            assign (\<lambda>a. a\<lparr>pollShutdownTimer := Some \<lparr>isActive = False, interval = 0\<rparr>\<rparr>),
            pollShutdownTimer_start_ms env 200]"

definition createSplashScreen :: "env \<Rightarrow> BitcoinApplication comp" where
  "createSplashScreen env =
     block [call env (Alloc new_SplashScreen), call env (Gui splash_show)]"

definition startThread :: "env \<Rightarrow> BitcoinApplication comp" where
  "startThread env a =
     (if coreThread a \<noteq> None then (None, a)
      else block [call env (Alloc new_QThread),
                  assign (\<lambda>a. a\<lparr>coreThread := Some ()\<rparr>),
                  call env (Alloc new_BitcoinCore),
                  call env (Gui executor_moveToThread),
                  call env (Gui coreThread_start)] a)"

definition requestInitialize :: "env \<Rightarrow> BitcoinApplication comp" where
  "requestInitialize env =
     block [log (qDebug ''requestInitialize'' '': Requesting initialize''),
            startThread env,
            log (Emit requestedInitialize)]"

text \<open>
  \<^verbatim>\<open>while (!shutdownAllowed) { processEvents(); MilliSleep(100); }\<close>: one pass of the body,
  and the loop, which returns \<open>None\<close> when it runs forever. \<open>n\<close> counts the passes made.
\<close>

definition requestShutdown_pass :: "env \<Rightarrow> nat \<Rightarrow> BitcoinApplication comp" where
  "requestShutdown_pass env n =
     block [call env (Gui QApplication_processEvents),
            assign (processEvents_effect env n),
            call env (Gui (MilliSleep 100))]"

partial_function (option) requestShutdown_wait ::
  "env \<Rightarrow> nat \<Rightarrow> BitcoinApplication \<Rightarrow> (abrupt option \<times> BitcoinApplication) option" where
  "requestShutdown_wait env n a =
     (if shutdownAllowed a then Some (None, a)
      else (case requestShutdown_pass env n a of
              (None, a') \<Rightarrow> requestShutdown_wait env (Suc n) a'
            | (Some x, a') \<Rightarrow> Some (Some x, a')))"

declare requestShutdown_wait.simps [code]


definition delete_walletModel_ptr :: "env \<Rightarrow> BitcoinApplication comp" where
  "delete_walletModel_ptr env =
     block [(\<lambda>a. if_then (walletModel a \<noteq> None) (call env (Alloc delete_walletModel)) a),
            assign (\<lambda>a. a\<lparr>walletModel := None\<rparr>)]"

definition delete_clientModel_ptr :: "env \<Rightarrow> BitcoinApplication comp" where
  "delete_clientModel_ptr env =
     block [(\<lambda>a. if_then (clientModel a \<noteq> None) (call env (Alloc delete_clientModel)) a),
            assign (\<lambda>a. a\<lparr>clientModel := None\<rparr>)]"

text \<open>The statements of \<^verbatim>\<open>requestShutdown\<close> after the loop.\<close>

definition requestShutdown_after_wait :: "env \<Rightarrow> BitcoinApplication comp" where
  "requestShutdown_after_wait env =
     block [startThread env,
            if_then (Q_OS_MAC env \<and> GetBoolArg env ''-hide'' False)
              (call env (Gui (MacDockIconHandler_toggleForegroundApp False))),
            on_window env window_hide,
            on_window env (window_setClientModel False),
            pollShutdownTimer_stop_now env,
            if_then (ENABLE_WALLET env)
              (block [on_window env window_removeAllWallets, delete_walletModel_ptr env]),
            delete_clientModel_ptr env,
            (if Q_OS_WIN env \<and> isShuttingDown env
             then call env (Gui (LogPrintf (''System shutdown'' @ [CHR 0x0A])))
             else call env (Gui ShutdownWindow_showShutdownWindow)),
            log (Emit requestedShutdown)]"

definition requestShutdown ::
  "env \<Rightarrow> BitcoinApplication \<Rightarrow> (abrupt option \<times> BitcoinApplication) option" where
  "requestShutdown env a =
     (case requestShutdown_wait env 0
             (snd (log (qDebug ''requestShutdown'' '': Requesting shutdown'') a)) of
        None \<Rightarrow> None
      | Some (None, a') \<Rightarrow> Some (requestShutdown_after_wait env a')
      | Some (Some x, a') \<Rightarrow> Some (Some x, a'))"

text \<open>
  \<^verbatim>\<open>initializeResult(int retval)\<close>. The early \<^verbatim>\<open>return\<close> is the first branch; the branch for
  a non-zero \<open>retval\<close> is \<open>initializeResult_success\<close>.
\<close>

definition initializeResult_success :: "env \<Rightarrow> BitcoinApplication comp" where
  "initializeResult_success env =
     block [if_then (ENABLE_WALLET env)
              (block [call env (Gui PaymentServer_LoadRootCAs),
                      on_paymentServer env paymentServer_setOptionsModel]),
            call env (Alloc new_ClientModel),
            assign (\<lambda>a. a\<lparr>clientModel := Some ()\<rparr>),
            on_window env (window_setClientModel True),
            if_then (ENABLE_WALLET env \<and> pwalletMain env)
              (block [call env (Alloc new_WalletModel),
                      assign (\<lambda>a. a\<lparr>walletModel := Some ()\<rparr>),
                      on_window env window_addWallet,
                      on_window env window_setCurrentWallet]),
            log (Emit applicationInitialized),
            (if GetBoolArg env ''-min'' False then on_window env window_showMinimized
             else if_then (\<not> GetBoolArg env ''-hide'' False) (on_window env window_show)),
            log (Emit splashFinished),
            if_then (ENABLE_WALLET env) (call env (Gui (QTimer_singleShot_uiReady 100)))]"

definition BitcoinApplication_initializeResult :: "env \<Rightarrow> int \<Rightarrow> BitcoinApplication comp" where
  "BitcoinApplication_initializeResult env retval =
     block [assign (\<lambda>a. a\<lparr>shutdownAllowed := False\<rparr>),
            (if ShutdownRequested env then assign (\<lambda>a. a\<lparr>shutdownAllowed := True\<rparr>)
             else block [log (qDebug_int ''initializeResult'' '': Initialization result: '' retval),
                         assign (\<lambda>a. a\<lparr>returnValue := (if retval \<noteq> 0 then 0 else 1)\<rparr>),
                         (if retval \<noteq> 0 then initializeResult_success env
                          else call env (Engine StartShutdown)),
                         assign (\<lambda>a. a\<lparr>shutdownAllowed := True\<rparr>)])]"

definition showErrorMessage :: "env \<Rightarrow> string \<Rightarrow> ('a proc_scheme) comp" where
  "showErrorMessage env message =
     (if WIN32 env then call env (Gui (MessageBoxW message ''Netbox.Wallet exception''))
      else call env (Gui (QMessageBox_critical ''Netbox.Wallet exception'' message)))"

text \<open>
  \<^verbatim>\<open>BitcoinApplication::handleRunawayException\<close>. Its \<^verbatim>\<open>exit(EXIT_FAILURE)\<close> is written
  inside a member function of a class derived from \<^verbatim>\<open>QApplication\<close>, where the name \<^verbatim>\<open>exit\<close>
  is found in the class before the global one: the call is the static member
  \<^verbatim>\<open>QCoreApplication::exit(int)\<close>, which tells the event loop to leave with that return
  code and returns to its caller. It is the event \<open>QCoreApplication_exit\<close>; \<open>exit_call\<close> is
  \<^verbatim>\<open>exit\<close> of the C library, which \<^verbatim>\<open>main\<close> calls.
\<close>

definition BitcoinApplication_handleRunawayException ::
  "env \<Rightarrow> string \<Rightarrow> BitcoinApplication comp" where
  "BitcoinApplication_handleRunawayException env message =
     block [showErrorMessage env message, call env (Gui (QCoreApplication_exit EXIT_FAILURE))]"

definition getReturnValue :: "BitcoinApplication \<Rightarrow> int" where
  "getReturnValue a = returnValue a"

text \<open>
  \<^verbatim>\<open>app.exec()\<close>: the event loop of the interactive thread runs the slot invocations that
  reach it, in order: \<^verbatim>\<open>initializeResult(int)\<close> and \<^verbatim>\<open>runawayException(QString)\<close> from the
  executor, \<^verbatim>\<open>requestedShutdown()\<close> from the window, and \<^verbatim>\<open>quit()\<close>, which ends the loop.
  The loop also ends when \<^verbatim>\<open>handleRunawayException\<close> has returned, which has called
  \<^verbatim>\<open>QCoreApplication::exit\<close>; \<^verbatim>\<open>main\<close> drops the code that \<^verbatim>\<open>exec()\<close> returns.
  Each comes with the answers of its surroundings while it runs. With nothing left to
  run and no \<^verbatim>\<open>quit()\<close>, the loop waits forever.
\<close>

datatype slot =
    Slot_initializeResult int
  | Slot_handleRunawayException string
  | Slot_requestShutdown
  | Slot_quit

fun BitcoinApplication_exec ::
  "(slot \<times> env) list \<Rightarrow> BitcoinApplication \<Rightarrow> (abrupt option \<times> BitcoinApplication) option" where
  "BitcoinApplication_exec [] a = None"
| "BitcoinApplication_exec ((Slot_quit, env) # evs) a = Some (None, a)"
| "BitcoinApplication_exec ((Slot_initializeResult retval, env) # evs) a =
     (case BitcoinApplication_initializeResult env retval a of
        (None, a') \<Rightarrow> BitcoinApplication_exec evs a'
      | (Some x, a') \<Rightarrow> Some (Some x, a'))"
| "BitcoinApplication_exec ((Slot_handleRunawayException message, env) # evs) a =
     (case BitcoinApplication_handleRunawayException env message a of
        (None, a') \<Rightarrow> Some (None, a')
      | (Some x, a') \<Rightarrow> Some (Some x, a'))"
| "BitcoinApplication_exec ((Slot_requestShutdown, env) # evs) a =
     (case requestShutdown env a of
        None \<Rightarrow> None
      | Some (None, a') \<Rightarrow> BitcoinApplication_exec evs a'
      | Some (Some x, a') \<Rightarrow> Some (Some x, a'))"

section \<open>main\<close>

text \<open>\<^verbatim>\<open>try { body } catch (std::exception& e) { handler(e.what()); }\<close>, with no catch-all.\<close>

definition try_catch_std :: "'s comp \<Rightarrow> (string \<Rightarrow> 's comp) \<Rightarrow> 's comp" where
  "try_catch_std body handler s =
     (case body s of
        (Some (Throw (StdException what)), s') \<Rightarrow> handler what s'
      | r \<Rightarrow> r)"

definition critical_box :: "env \<Rightarrow> string \<Rightarrow> ('a proc_scheme) comp" where
  "critical_box env text = call env (Gui (QMessageBox_critical ''Netbox.Wallet'' text))"

text \<open>
  Steps 1 to 9 of \<^verbatim>\<open>main\<close>, up to the \<^verbatim>\<open>try\<close> block that creates the window. The state is
  the application object, which exists from \<open>new_BitcoinApplication\<close> on. The calls that
  only configure Qt (attributes, meta types, organisation and application names, font
  substitution, the translator hook) are one event, \<open>qt_application_setup\<close>; the handlers
  for hardware faults (\<^verbatim>\<open>sigaction\<close>, or \<^verbatim>\<open>SetUnhandledExceptionFilter\<close>) are
  \<open>install_fault_handlers\<close>.
\<close>

definition main_wallet_ipc :: "env \<Rightarrow> startup \<Rightarrow> BitcoinApplication comp" where
  "main_wallet_ipc env st =
     block [call env (Startup masternodeConfig_read),
            if_then (\<not> masternodeConfig_read_rv st)
              (block [critical_box env
                        (''Error reading masternode configuration file: '' @ masternodeConfig_strErr st),
                      abort (Return 0)]),
            call env (Startup PaymentServer_ipcSendCommandLine),
            if_then (ipcSendCommandLine_rv st) (exit_process 0),
            if_then (WIN32 env) (call env (Startup AllowSetForegroundWindow)),
            call env (Startup (PaymentServer_ipcSendCommand ''nbx:show'')),
            if_then (ipcSendCommand_rv st ''nbx:show'') (exit_process 0),
            createPaymentServer env]"

definition main_startup :: "env \<Rightarrow> startup \<Rightarrow> BitcoinApplication comp" where
  "main_startup env st =
     block [call env (Startup install_fault_handlers),
            call env (Startup SetupEnvironment),
            call env (Startup ParseParameters),
            call env (Startup (Q_INIT_RESOURCE ''nbx_locale'')),
            call env (Startup (Q_INIT_RESOURCE ''nbx'')),
            if_then (Q_OS_MAC env \<and> GetBoolArg env ''-hide'' False)
              (call env (Startup (qputenv ''QT_MAC_DISABLE_FOREGROUND_APPLICATION_TRANSFORM'' ''1''))),
            call env (Alloc new_BitcoinApplication),
            call env (Startup qt_application_setup),
            call env (Startup initTranslations),
            if_then (help_requested st)
              (block [call env (Startup HelpMessageDialog_showOrPrint), abort (Return 1)]),
            call env (Startup Intro_pickDataDirectory),
            if_then (\<not> pickDataDirectory_rv st) (abort (Return 0)),
            if_then (\<not> datadir_is_directory st)
              (block [critical_box env
                        (''Error: Specified data directory '' @ datadir_arg st @ '' does not exist.''),
                      abort (Return 1)]),
            try_catch_std (call env (Startup ReadConfigFile))
              (\<lambda>what. block [critical_box env
                                (''Error: Cannot parse configuration file: '' @ what
                                   @ ''. Only use key=value syntax.''),
                              abort (Return 0)]),
            if_then (\<not> SelectParamsFromCommandLine_rv st)
              (block [critical_box env ''Error: Invalid combination of -regtest and -testnet.'',
                      abort (Return 1)]),
            if_then (ENABLE_WALLET env) (call env (Startup PaymentServer_ipcParseCommandLine)),
            call env (Startup NetworkStyle_instantiate),
            if_then (networkStyle_isNull st) (abort AssertFailed),
            call env (Startup initTranslations),
            if_then (ENABLE_WALLET env) (main_wallet_ipc env st),
            call env (Startup install_event_filters),
            if_then (Q_OS_WIN env)
              (block [call env (Alloc new_WinShutdownMonitor),
                      assign (\<lambda>a. a\<lparr>shutdownMonitor := Some ()\<rparr>)]),
            call env (Startup qInstallMessageHandler),
            createOptionsModel env,
            if_then (GetBoolArg env ''-splash'' True \<and> \<not> GetBoolArg env ''-min'' False)
              (createSplashScreen env)]"

text \<open>
  The \<^verbatim>\<open>try\<close> block of step 9: what runs before \<^verbatim>\<open>app.exec()\<close>, the block, and its
  two handlers.
\<close>

definition main_before_exec :: "env \<Rightarrow> BitcoinApplication comp" where
  "main_before_exec env =
     block [createWindow env,
            requestInitialize env,
            if_then (Q_OS_WIN env)
              (call env (Startup WinShutdownMonitor_registerShutdownBlockReason))]"

definition main_try ::
  "env \<Rightarrow> (slot \<times> env) list \<Rightarrow> BitcoinApplication \<Rightarrow> (abrupt option \<times> BitcoinApplication) option" where
  "main_try env evs a =
     (case main_before_exec env a of
        (None, a') \<Rightarrow> BitcoinApplication_exec evs a'
      | (Some x, a') \<Rightarrow> Some (Some x, a'))"

definition main_catch :: "env \<Rightarrow> string option \<Rightarrow> BitcoinApplication comp" where
  "main_catch env e =
     block [log (Engine (PrintExceptionContinue e ''main'')),
            BitcoinApplication_handleRunawayException env (FormatException env e ''main'')]"

text \<open>
  \<^verbatim>\<open>main\<close>: \<open>None\<close> when it never returns; otherwise how the process ended and the final
  state. Falling off the \<^verbatim>\<open>try\<close> block, or off one of its handlers (no event loop runs
  there, so \<^verbatim>\<open>QCoreApplication::exit\<close> has no effect), is \<^verbatim>\<open>return app.getReturnValue()\<close>.
\<close>

definition main ::
  "env \<Rightarrow> startup \<Rightarrow> (slot \<times> env) list \<Rightarrow> (abrupt option \<times> BitcoinApplication) option" where
  "main env st evs =
     (case main_startup env st BitcoinApplication_ctor of
        (Some x, a) \<Rightarrow> Some (Some x, a)
      | (None, a) \<Rightarrow>
          (case main_try env evs a of
             None \<Rightarrow> None
           | Some (None, a') \<Rightarrow> Some (Some (Return (getReturnValue a')), a')
           | Some (Some (Throw e), a') \<Rightarrow>
               (case main_catch env (caught e) a' of
                  (None, a'') \<Rightarrow> Some (Some (Return (getReturnValue a'')), a'')
                | (Some x, a'') \<Rightarrow> Some (Some x, a''))
           | Some (Some x, a') \<Rightarrow> Some (Some x, a')))"

text \<open>The exit status of the process, when it ends by \<^verbatim>\<open>return\<close> from \<^verbatim>\<open>main\<close> or \<^verbatim>\<open>exit\<close>.\<close>

fun exit_status :: "abrupt option \<Rightarrow> int option" where
  "exit_status (Some (Return n)) = Some n"
| "exit_status (Some (ProcessExit n)) = Some n"
| "exit_status _ = None"

text \<open>\<open>before x y t\<close>: \<open>x\<close> occurs in \<open>t\<close>, and no \<open>y\<close> occurs before its first occurrence.\<close>

definition before :: "event \<Rightarrow> event \<Rightarrow> event list \<Rightarrow> bool" where
  "before x y t = (x \<in> set t \<and> y \<notin> set (takeWhile (\<lambda>e. e \<noteq> x) t))"

subsection \<open>Concrete inputs\<close>

text \<open>
  A Linux wallet build in which no call throws, the engine answers nothing special, and
  \<^verbatim>\<open>processEvents()\<close> finds no handler to run.
\<close>

definition quiet_env :: env where
  "quiet_env =
     \<lparr>throws = (\<lambda>e. None), AppInit2_rv = 1, ResyncNeeded = False, ShutdownRequested = False,
      RestartRequested = False, buildParameterlist = (\<lambda>arg. [arg]),
      applicationFilePath = ''/usr/bin/nbx-qt'',
      FormatException = (\<lambda>e thread. ''EXCEPTION in '' @ thread),
      indeterminate = False, GetBoolArg = (\<lambda>name dflt. dflt), pwalletMain = True,
      isShuttingDown = False, processEvents_effect = (\<lambda>n a. a),
      Q_OS_WIN = False, Q_OS_MAC = False, WIN32 = False, ENABLE_WALLET = True\<rparr>"

definition plain_startup :: startup where
  "plain_startup =
     \<lparr>help_requested = False, pickDataDirectory_rv = True, datadir_is_directory = True,
      datadir_arg = [], SelectParamsFromCommandLine_rv = True, networkStyle_isNull = False,
      masternodeConfig_read_rv = True, masternodeConfig_strErr = [],
      ipcSendCommandLine_rv = False, ipcSendCommand_rv = (\<lambda>cmd. False)\<rparr>"

text \<open>The same startup with another instance running, which answers \<^verbatim>\<open>nbx:show\<close>.\<close>

definition answered_startup :: startup where
  "answered_startup = plain_startup\<lparr>ipcSendCommand_rv := (\<lambda>cmd. cmd = ''nbx:show'')\<rparr>"

text \<open>The controller as \<^verbatim>\<open>main\<close> has it when the event loop starts, in that build.\<close>

definition running_app :: BitcoinApplication where
  "running_app =
     \<lparr>trace = [], coreThread = Some (), optionsModel = Some (), clientModel = None,
      window = Some (), pollShutdownTimer = Some \<lparr>isActive = True, interval = 200\<rparr>,
      shutdownMonitor = None, paymentServer = Some (), walletModel = None,
      shutdownAllowed = True, returnValue = 0\<rparr>"

text \<open>
  The handlers run by the second call of \<^verbatim>\<open>processEvents()\<close> open the gate; and the
  controller with the gate closed.
\<close>

definition late_gate_env :: env where
  "late_gate_env = quiet_env\<lparr>processEvents_effect := (\<lambda>n a. a\<lparr>shutdownAllowed := (1 \<le> n)\<rparr>)\<rparr>"

definition waiting_app :: BitcoinApplication where
  "waiting_app = running_app\<lparr>shutdownAllowed := False\<rparr>"

section \<open>Properties\<close>

subsection \<open>Statements and blocks\<close>


lemma block_call:
  "block (call env e # cs) s =
     (case throws env e of
        None \<Rightarrow> block cs (s\<lparr>trace := trace s @ [e]\<rparr>)
      | Some x \<Rightarrow> (Some (Throw x), s\<lparr>trace := trace s @ [e]\<rparr>))"
  by (simp add: call_def split: option.splits)

lemma block_log: "block (log e # cs) s = block cs (s\<lparr>trace := trace s @ [e]\<rparr>)"
  by (simp add: log_def)

lemma block_assign: "block (assign f # cs) s = block cs (f s)"
  by (simp add: assign_def)

lemma block_if_then:
  "block (if_then b c # cs) s = (if b then block (c # cs) s else block cs s)"
  by (simp add: if_then_def skip_def)

lemma block_abort: "block (abort x # cs) s = (Some x, s)"
  by (simp add: abort_def)

lemma block_last: "block [c] s = c s"
proof (cases "c s")
  case (Pair r s')
  then show ?thesis by (cases r) simp_all
qed

lemma block_invariant:
  assumes "P s" and "\<And>c s. c \<in> set cs \<Longrightarrow> P s \<Longrightarrow> P (snd (c s))"
  shows "P (snd (block cs s))"
  using assms
proof (induction cs arbitrary: s)
  case Nil
  then show ?case by simp
next
  case (Cons c cs)
  have step: "P (snd (c s))" using Cons.prems by simp
  show ?case
  proof (cases "c s")
    case (Pair r s')
    with step have "P s'" by simp
    show ?thesis
    proof (cases r)
      case None
      with Pair \<open>P s'\<close> Cons.IH [of s'] Cons.prems(2) show ?thesis by simp
    next
      case (Some x)
      with Pair \<open>P s'\<close> show ?thesis by simp
    qed
  qed
qed

lemma block_abrupt:
  assumes "fst (block cs s) = Some x"
    and "\<And>c s. c \<in> set cs \<Longrightarrow> fst (c s) = Some x \<Longrightarrow> R"
  shows R
  using assms
proof (induction cs arbitrary: s)
  case Nil
  then show ?case by simp
next
  case (Cons c cs)
  show ?case
  proof (cases "c s")
    case (Pair r s')
    show ?thesis
    proof (cases r)
      case None
      with Pair Cons.prems(1) have "fst (block cs s') = Some x" by simp
      then show ?thesis using Cons.IH Cons.prems(2) by (meson list.set_intros(2))
    next
      case (Some y)
      with Pair Cons.prems(1) have "fst (c s) = Some x" by simp
      then show ?thesis using Cons.prems(2) [of c s] by simp
    qed
  qed
qed

lemma block_adds:
  fixes f :: "'s \<Rightarrow> nat"
  assumes "list_all2 (\<lambda>c n. \<forall>s. f (snd (c s)) \<le> f s + n) cs ns"
  shows "f (snd (block cs s)) \<le> f s + sum_list ns"
  using assms
proof (induction cs ns arbitrary: s rule: list_all2_induct)
  case Nil
  then show ?case by simp
next
  case (Cons c cs n ns)
  have step: "f (snd (c s)) \<le> f s + n" using Cons.hyps(1) by simp
  show ?case
  proof (cases "c s")
    case (Pair r s')
    with step have le: "f s' \<le> f s + n" by simp
    show ?thesis
    proof (cases r)
      case None
      with Pair have "block (c # cs) s = block cs s'" by simp
      with Cons.IH [of s'] le show ?thesis by simp
    next
      case (Some x)
      with Pair le show ?thesis by simp
    qed
  qed
qed

lemma try_catch_normal:
  assumes "\<And>x. fst (b s) = Some x \<Longrightarrow> \<exists>e. x = Throw e"
    and "\<And>e s. fst (h e s) = None"
  shows "fst (try_catch b h s) = None"
proof (cases "b s")
  case (Pair r s')
  show ?thesis
  proof (cases r)
    case None
    with Pair show ?thesis by (simp add: try_catch_def)
  next
    case (Some x)
    with Pair assms(1) obtain e where "x = Throw e" by auto
    with Pair Some assms(2) show ?thesis by (simp add: try_catch_def)
  qed
qed

lemma try_catch_invariant:
  assumes "P (snd (b s))" and "\<And>e s. P s \<Longrightarrow> P (snd (h e s))"
  shows "P (snd (try_catch b h s))"
proof (cases "b s")
  case (Pair r s')
  with assms(1) have "P s'" by simp
  show ?thesis
  proof (cases r)
    case None
    with Pair \<open>P s'\<close> show ?thesis by (simp add: try_catch_def)
  next
    case (Some x)
    with Pair \<open>P s'\<close> assms(2) show ?thesis
      by (cases x) (simp_all add: try_catch_def)
  qed
qed

lemma try_catch_thrown:
  "b s = (Some (Throw e), s') \<Longrightarrow> try_catch b h s = h (caught e) s'"
  by (simp add: try_catch_def)

lemma try_catch_returned:
  "b s = (None, s') \<Longrightarrow> try_catch b h s = (None, s')"
  by (simp add: try_catch_def)

subsection \<open>The executor\<close>

lemma if_then_apply: "if_then b c s = (if b then c s else (None, s))"
  by (simp add: if_then_def skip_def)

lemma if_apply: "(if b then f else g) s = (if b then f s else g s)"
  by simp

lemmas step_defs = log_def call_def assign_def if_then_apply if_apply skip_def abort_def

lemma handler_eq:
  "BitcoinCore_handleRunawayException env e s =
     (None, s\<lparr>trace := trace s @
        [Engine (PrintExceptionContinue e ''Runaway exception''),
         Emit (runawayException (FormatException env e ''Runaway exception''))]\<rparr>)"
  by (simp add: BitcoinCore_handleRunawayException_def log_def)

lemma restart_try_abrupt:
  "fst (BitcoinCore_restart_try env args s) = Some x \<Longrightarrow> \<exists>e. x = Throw e"
  unfolding BitcoinCore_restart_try_def
  by (erule block_abrupt) (auto simp: step_defs split: if_splits)

lemma shutdown_try_abrupt:
  "fst (BitcoinCore_shutdown_try env s) = Some x \<Longrightarrow> \<exists>e. x = Throw e"
  unfolding BitcoinCore_shutdown_try_def
  by (erule block_abrupt) (auto simp: step_defs split: if_splits)

lemma restart_normal: "fst (BitcoinCore_restart env args w) = None"
proof -
  have "fst (try_catch (BitcoinCore_restart_try env args)
               (BitcoinCore_handleRunawayException env) s) = None" for s
    by (rule try_catch_normal) (auto dest: restart_try_abrupt simp: handler_eq)
  then show ?thesis
    by (simp add: BitcoinCore_restart_def block_assign block_last del: block.simps(2))
qed

lemma shutdown_normal: "fst (BitcoinCore_shutdown env w) = None"
proof -
  have "fst (try_catch (BitcoinCore_shutdown_try env)
               (BitcoinCore_handleRunawayException env) s) = None" for s
    by (rule try_catch_normal) (auto dest: shutdown_try_abrupt simp: handler_eq)
  then show ?thesis
    by (simp add: BitcoinCore_shutdown_def skip_def)
qed

lemma initialize_try_abrupt:
  "fst (BitcoinCore_initialize_try env s) = Some x \<Longrightarrow> \<exists>e. x = Throw e"
  unfolding BitcoinCore_initialize_try_def
  by (erule block_abrupt) (auto simp: step_defs restart_normal split: if_splits)

lemma initialize_normal: "fst (BitcoinCore_initialize env w) = None"
proof -
  have "fst (try_catch (BitcoinCore_initialize_try env)
               (BitcoinCore_handleRunawayException env) s) = None" for s
    by (rule try_catch_normal) (auto dest: initialize_try_abrupt simp: handler_eq)
  then show ?thesis
    by (simp add: BitcoinCore_initialize_def block_assign block_last del: block.simps(2))
qed

lemma slot_normal: "fst (BitcoinCore_slot env r w) = None"
  by (cases r) (simp_all add: initialize_normal shutdown_normal restart_normal)

text \<open>The latch is written by the two assignments only.\<close>

lemma restart_try_latch:
  "execute_restart (snd (BitcoinCore_restart_try env args s)) = execute_restart s"
  unfolding BitcoinCore_restart_try_def
  by (rule block_invariant [where P = "\<lambda>s'. execute_restart s' = execute_restart s"])
     (auto simp: step_defs)

lemma shutdown_try_latch:
  "execute_restart (snd (BitcoinCore_shutdown_try env s)) = execute_restart s"
  unfolding BitcoinCore_shutdown_try_def
  by (rule block_invariant [where P = "\<lambda>s'. execute_restart s' = execute_restart s"])
     (auto simp: step_defs)

lemma restart_eq:
  "BitcoinCore_restart env args w =
     (if read_execute_restart env w
      then try_catch (BitcoinCore_restart_try env args) (BitcoinCore_handleRunawayException env)
             (w\<lparr>execute_restart := Some False\<rparr>)
      else (None, w))"
  by (simp add: BitcoinCore_restart_def block_assign block_last del: block.simps(2))

lemma restart_latch:
  "read_execute_restart env w \<Longrightarrow>
   execute_restart (snd (BitcoinCore_restart env args w)) = Some False"
proof -
  assume r: "read_execute_restart env w"
  have "execute_restart (snd (try_catch (BitcoinCore_restart_try env args)
          (BitcoinCore_handleRunawayException env) (w\<lparr>execute_restart := Some False\<rparr>))) = Some False"
    by (rule try_catch_invariant [where P = "\<lambda>s'. execute_restart s' = Some False"])
       (simp_all add: restart_try_latch handler_eq)
  with r show ?thesis by (simp add: restart_eq)
qed

lemma shutdown_latch:
  "execute_restart (snd (BitcoinCore_shutdown env w)) = execute_restart w"
proof (cases "RestartRequested env")
  case True
  then show ?thesis by (simp add: BitcoinCore_shutdown_def skip_def)
next
  case False
  have "execute_restart (snd (try_catch (BitcoinCore_shutdown_try env)
          (BitcoinCore_handleRunawayException env) w)) = execute_restart w"
    by (rule try_catch_invariant [where P = "\<lambda>s'. execute_restart s' = execute_restart w"])
       (simp_all add: shutdown_try_latch handler_eq)
  with False show ?thesis by (simp add: BitcoinCore_shutdown_def)
qed

text \<open>How many entries into the body of restart, and how many launches, a slot adds.\<close>

lemma restart_try_entered:
  "count_events restart_entered (trace (snd (BitcoinCore_restart_try env args s)))
     \<le> count_events restart_entered (trace s) + 1"
proof -
  have "count_events restart_entered (trace (snd (BitcoinCore_restart_try env args s)))
          \<le> count_events restart_entered (trace s) + sum_list [1, 0, 0, 0, 0, 0, 0, 0, 0, 0]"
    unfolding BitcoinCore_restart_try_def
    by (rule block_adds [where f = "\<lambda>s. count_events restart_entered (trace s)"])
       (simp add: step_defs count_events_def)
  then show ?thesis by simp
qed

lemma restart_try_launched:
  "count_events process_launched (trace (snd (BitcoinCore_restart_try env args s)))
     \<le> count_events process_launched (trace s) + 1"
proof -
  have "count_events process_launched (trace (snd (BitcoinCore_restart_try env args s)))
          \<le> count_events process_launched (trace s) + sum_list [0, 0, 0, 0, 0, 1, 0, 0, 0, 0]"
    unfolding BitcoinCore_restart_try_def
    by (rule block_adds [where f = "\<lambda>s. count_events process_launched (trace s)"])
       (simp add: step_defs count_events_def)
  then show ?thesis by simp
qed

lemma shutdown_try_entered:
  "count_events restart_entered (trace (snd (BitcoinCore_shutdown_try env s)))
     \<le> count_events restart_entered (trace s)"
proof -
  have "count_events restart_entered (trace (snd (BitcoinCore_shutdown_try env s)))
          \<le> count_events restart_entered (trace s) + sum_list [0, 0, 0, 0, 0, 0, 0]"
    unfolding BitcoinCore_shutdown_try_def
    by (rule block_adds [where f = "\<lambda>s. count_events restart_entered (trace s)"])
       (simp add: step_defs count_events_def)
  then show ?thesis by simp
qed

lemma shutdown_try_launched:
  "count_events process_launched (trace (snd (BitcoinCore_shutdown_try env s)))
     \<le> count_events process_launched (trace s)"
proof -
  have "count_events process_launched (trace (snd (BitcoinCore_shutdown_try env s)))
          \<le> count_events process_launched (trace s) + sum_list [0, 0, 0, 0, 0, 0, 0]"
    unfolding BitcoinCore_shutdown_try_def
    by (rule block_adds [where f = "\<lambda>s. count_events process_launched (trace s)"])
       (simp add: step_defs count_events_def)
  then show ?thesis by simp
qed


lemma restart_budget_restart:
  assumes body: "\<And>s. count_events P (trace (snd (BitcoinCore_restart_try env args s)))
                     \<le> count_events P (trace s) + 1"
    and only: "\<And>e. P e \<Longrightarrow> restart_entered e \<or> process_launched e"
  shows "restart_budget P (snd (BitcoinCore_restart env args w)) \<le> restart_budget P w"
proof (cases "read_execute_restart env w")
  case False
  then show ?thesis by (simp add: restart_eq)
next
  case True
  have n1: "\<not> P (Engine (PrintExceptionContinue e m))" for e m using only by fastforce
  have n2: "\<not> P (Emit g)" for g using only by fastforce
  have latch: "execute_restart (snd (BitcoinCore_restart env args w)) = Some False"
    using True by (rule restart_latch)
  have not_off: "execute_restart w \<noteq> Some False"
    using True by (auto simp: read_execute_restart_def)
  have "count_events P (trace (snd (try_catch (BitcoinCore_restart_try env args)
          (BitcoinCore_handleRunawayException env) (w\<lparr>execute_restart := Some False\<rparr>))))
        \<le> count_events P (trace w) + 1"
    by (rule try_catch_invariant
          [where P = "\<lambda>s'. count_events P (trace s') \<le> count_events P (trace w) + 1"])
       (use body [of "w\<lparr>execute_restart := Some False\<rparr>"] in
          \<open>simp_all add: handler_eq count_events_def n1 n2\<close>)
  with True have "count_events P (trace (snd (BitcoinCore_restart env args w)))
        \<le> count_events P (trace w) + 1"
    by (simp add: restart_eq)
  with latch not_off show ?thesis by (simp add: restart_budget_def)
qed

lemma restart_budget_shutdown:
  assumes body: "\<And>s. count_events P (trace (snd (BitcoinCore_shutdown_try env s)))
                     \<le> count_events P (trace s)"
    and only: "\<And>e. P e \<Longrightarrow> restart_entered e \<or> process_launched e"
  shows "restart_budget P (snd (BitcoinCore_shutdown env w)) \<le> restart_budget P w"
proof (cases "RestartRequested env")
  case True
  then show ?thesis by (simp add: BitcoinCore_shutdown_def skip_def)
next
  case False
  have n1: "\<not> P (Engine (PrintExceptionContinue e m))" for e m using only by fastforce
  have n2: "\<not> P (Emit g)" for g using only by fastforce
  have "count_events P (trace (snd (try_catch (BitcoinCore_shutdown_try env)
          (BitcoinCore_handleRunawayException env) w))) \<le> count_events P (trace w)"
    by (rule try_catch_invariant
          [where P = "\<lambda>s'. count_events P (trace s') \<le> count_events P (trace w)"])
       (use body [of w] in \<open>simp_all add: handler_eq count_events_def n1 n2\<close>)
  with False have "count_events P (trace (snd (BitcoinCore_shutdown env w)))
        \<le> count_events P (trace w)"
    by (simp add: BitcoinCore_shutdown_def)
  with shutdown_latch [of env w] show ?thesis by (simp add: restart_budget_def)
qed

lemma initialize_eq:
  "BitcoinCore_initialize env w =
     try_catch (BitcoinCore_initialize_try env) (BitcoinCore_handleRunawayException env)
       (w\<lparr>execute_restart := Some True\<rparr>)"
  by (simp add: BitcoinCore_initialize_def block_assign block_last del: block.simps(2))

lemma block_nonincreasing:
  fixes f :: "'s \<Rightarrow> nat"
  assumes "\<And>c s. c \<in> set cs \<Longrightarrow> f (snd (c s)) \<le> f s"
  shows "f (snd (block cs s)) \<le> f s"
proof (rule block_invariant [where P = "\<lambda>s'. f s' \<le> f s"])
  show "f s \<le> f s" by simp
next
  fix c s'
  assume "c \<in> set cs" and "f s' \<le> f s"
  with assms [of c s'] show "f (snd (c s')) \<le> f s" by simp
qed

lemma restart_budget_log:
  "\<not> P e \<Longrightarrow> restart_budget P (snd (log e s)) = restart_budget P s"
  by (simp add: log_def restart_budget_def count_events_def)

lemma restart_budget_call:
  "\<not> P e \<Longrightarrow> restart_budget P (snd (call env e s)) = restart_budget P s"
  by (simp add: call_def restart_budget_def count_events_def)

lemma restart_budget_initialize_try:
  assumes body: "\<And>args s. count_events P (trace (snd (BitcoinCore_restart_try env args s)))
                     \<le> count_events P (trace s) + 1"
    and only: "\<And>e. P e \<Longrightarrow> restart_entered e \<or> process_launched e"
  shows "restart_budget P (snd (BitcoinCore_initialize_try env s)) \<le> restart_budget P s"
proof -
  have n1: "\<not> P (Engine AppInit2)" using only by fastforce
  have n2: "\<not> P (Emit g)" for g using only by fastforce
  have n3: "\<not> P (qDebug ''initialize'' m)" for m using only by fastforce
  have r: "restart_budget P (snd (BitcoinCore_restart env args s)) \<le> restart_budget P s"
    for args s
    by (rule restart_budget_restart) (rule body, rule only)
  show ?thesis
    unfolding BitcoinCore_initialize_try_def
  proof (rule block_nonincreasing)
    fix c and s :: BitcoinCore
    assume "c \<in> set [log (qDebug ''initialize'' '': Running AppInit2 in thread''),
                      call env (Engine AppInit2),
                      if ResyncNeeded env
                      then if_then (\<not> ShutdownRequested env)
                             (BitcoinCore_restart env (buildParameterlist env ''-resync''))
                      else log (Emit (initializeResult (AppInit2_rv env)))]"
    then consider "c = log (qDebug ''initialize'' '': Running AppInit2 in thread'')"
      | "c = call env (Engine AppInit2)"
      | "c = (if ResyncNeeded env
              then if_then (\<not> ShutdownRequested env)
                     (BitcoinCore_restart env (buildParameterlist env ''-resync''))
              else log (Emit (initializeResult (AppInit2_rv env))))"
      by auto
    then show "restart_budget P (snd (c s)) \<le> restart_budget P s"
    proof cases
      case 1
      then show ?thesis by (simp add: restart_budget_log n3)
    next
      case 2
      then show ?thesis by (simp add: restart_budget_call n1)
    next
      case 3
      then show ?thesis by (simp add: if_then_apply restart_budget_log n2 r)
    qed
  qed
qed

lemma restart_budget_initialize:
  assumes body: "\<And>args s. count_events P (trace (snd (BitcoinCore_restart_try env args s)))
                     \<le> count_events P (trace s) + 1"
    and only: "\<And>e. P e \<Longrightarrow> restart_entered e \<or> process_launched e"
  shows "restart_budget P (snd (BitcoinCore_initialize env w)) \<le> count_events P (trace w) + 1"
proof -
  have n1: "\<not> P (Engine (PrintExceptionContinue e m))" for e m using only by fastforce
  have n2: "\<not> P (Emit g)" for g using only by fastforce
  let ?w = "w\<lparr>execute_restart := Some True\<rparr>"
  have "restart_budget P (snd (try_catch (BitcoinCore_initialize_try env)
          (BitcoinCore_handleRunawayException env) ?w)) \<le> restart_budget P ?w"
  proof (rule try_catch_invariant [where P = "\<lambda>s'. restart_budget P s' \<le> restart_budget P ?w"])
    show "restart_budget P (snd (BitcoinCore_initialize_try env ?w)) \<le> restart_budget P ?w"
      by (rule restart_budget_initialize_try) (rule body, rule only)
  next
    fix e s
    assume "restart_budget P s \<le> restart_budget P ?w"
    then show "restart_budget P (snd (BitcoinCore_handleRunawayException env e s))
                 \<le> restart_budget P ?w"
      by (simp add: handler_eq restart_budget_def count_events_def n1 n2)
  qed
  then show ?thesis by (simp add: initialize_eq restart_budget_def)
qed

lemma restart_budget_deliver:
  assumes rbody: "\<And>env args s. count_events P (trace (snd (BitcoinCore_restart_try env args s)))
                     \<le> count_events P (trace s) + 1"
    and sbody: "\<And>env s. count_events P (trace (snd (BitcoinCore_shutdown_try env s)))
                     \<le> count_events P (trace s)"
    and only: "\<And>e. P e \<Longrightarrow> restart_entered e \<or> process_launched e"
  shows "Req_initialize \<notin> set (map fst rs) \<Longrightarrow>
         restart_budget P (snd (BitcoinCore_deliver rs w)) \<le> restart_budget P w"
proof (induction rs arbitrary: w)
  case Nil
  then show ?case by simp
next
  case (Cons q rs)
  obtain r env where q: "q = (r, env)" by (cases q)
  obtain w' where w': "BitcoinCore_slot env r w = (None, w')"
    using slot_normal [of env r w] by (cases "BitcoinCore_slot env r w") auto
  have "r \<noteq> Req_initialize" using Cons.prems q by auto
  then have step: "restart_budget P w' \<le> restart_budget P w"
  proof (cases r)
    case Req_shutdown
    with w' restart_budget_shutdown [of P env w, OF sbody only] show ?thesis by simp
  next
    case (Req_restart args)
    with w' restart_budget_restart [of P env args w, OF rbody only] show ?thesis by simp
  qed simp
  have "restart_budget P (snd (BitcoinCore_deliver rs w')) \<le> restart_budget P w'"
    using Cons.IH Cons.prems by simp
  with step q w' show ?case by simp
qed


lemma count_le_restart_budget: "count_events P (trace w) \<le> restart_budget P w"
  by (simp add: restart_budget_def)

lemma deliver_initialize_first:
  "BitcoinCore_deliver ((Req_initialize, env) # rs) w =
     BitcoinCore_deliver rs (snd (BitcoinCore_initialize env w))"
  using initialize_normal [of env w] by (cases "BitcoinCore_initialize env w") auto

lemma entered_deliver:
  "Req_initialize \<notin> set (map fst rs) \<Longrightarrow>
   restart_budget restart_entered (snd (BitcoinCore_deliver rs w))
     \<le> restart_budget restart_entered w"
  by (rule restart_budget_deliver) (use restart_try_entered shutdown_try_entered in simp_all)

lemma launched_deliver:
  "Req_initialize \<notin> set (map fst rs) \<Longrightarrow>
   restart_budget process_launched (snd (BitcoinCore_deliver rs w))
     \<le> restart_budget process_launched w"
  by (rule restart_budget_deliver) (use restart_try_launched shutdown_try_launched in simp_all)

lemma entered_initialize:
  "restart_budget restart_entered (snd (BitcoinCore_initialize env w))
     \<le> count_events restart_entered (trace w) + 1"
  by (rule restart_budget_initialize) (use restart_try_entered in simp_all)

lemma launched_initialize:
  "restart_budget process_launched (snd (BitcoinCore_initialize env w))
     \<le> count_events process_launched (trace w) + 1"
  by (rule restart_budget_initialize) (use restart_try_launched in simp_all)

text \<open>
  C1. Whatever restart and shutdown requests reach the executor after the one
  \<^verbatim>\<open>initialize\<close> of a process run (or with no \<^verbatim>\<open>initialize\<close> at all), the guarded body of
  \<^verbatim>\<open>restart\<close> is entered at most once and at most one detached process is launched. Once
  the latch reads \<^verbatim>\<open>false\<close> a restart request changes nothing, and a restart that passes
  the guard leaves the latch \<^verbatim>\<open>false\<close>.
\<close>

theorem restart_executes_at_most_once:
  assumes "Req_initialize \<notin> set (map fst rs)"
  shows "count_events restart_entered
           (trace (snd (BitcoinCore_deliver ((Req_initialize, env) # rs) w)))
           \<le> count_events restart_entered (trace w) + 1
       \<and> count_events process_launched
           (trace (snd (BitcoinCore_deliver ((Req_initialize, env) # rs) w)))
           \<le> count_events process_launched (trace w) + 1
       \<and> count_events restart_entered (trace (snd (BitcoinCore_deliver rs w)))
           \<le> count_events restart_entered (trace w) + 1
       \<and> count_events process_launched (trace (snd (BitcoinCore_deliver rs w)))
           \<le> count_events process_launched (trace w) + 1
       \<and> (execute_restart w = Some False \<longrightarrow>
            count_events restart_entered (trace (snd (BitcoinCore_deliver rs w)))
              \<le> count_events restart_entered (trace w)
          \<and> count_events process_launched (trace (snd (BitcoinCore_deliver rs w)))
              \<le> count_events process_launched (trace w))
       \<and> (execute_restart w = Some False \<longrightarrow> BitcoinCore_restart env' args w = (None, w))
       \<and> (read_execute_restart env' w \<longrightarrow>
            execute_restart (snd (BitcoinCore_restart env' args w)) = Some False)"
proof -
  let ?w1 = "snd (BitcoinCore_initialize env w)"
  have e1: "count_events restart_entered (trace (snd (BitcoinCore_deliver rs ?w1)))
              \<le> count_events restart_entered (trace w) + 1"
    using entered_deliver [OF assms, of ?w1] entered_initialize [of env w]
      count_le_restart_budget [of restart_entered "snd (BitcoinCore_deliver rs ?w1)"]
    by linarith
  have l1: "count_events process_launched (trace (snd (BitcoinCore_deliver rs ?w1)))
              \<le> count_events process_launched (trace w) + 1"
    using launched_deliver [OF assms, of ?w1] launched_initialize [of env w]
      count_le_restart_budget [of process_launched "snd (BitcoinCore_deliver rs ?w1)"]
    by linarith
  have e2: "count_events restart_entered (trace (snd (BitcoinCore_deliver rs w)))
              \<le> restart_budget restart_entered w"
    using entered_deliver [OF assms, of w]
      count_le_restart_budget [of restart_entered "snd (BitcoinCore_deliver rs w)"]
    by linarith
  have l2: "count_events process_launched (trace (snd (BitcoinCore_deliver rs w)))
              \<le> restart_budget process_launched w"
    using launched_deliver [OF assms, of w]
      count_le_restart_budget [of process_launched "snd (BitcoinCore_deliver rs w)"]
    by linarith
  have off: "execute_restart w = Some False \<Longrightarrow> BitcoinCore_restart env' args w = (None, w)"
    by (simp add: restart_eq read_execute_restart_def)
  show ?thesis
    unfolding deliver_initialize_first
    using e1 l1 e2 l2 off restart_latch [of env' w args]
    by (auto simp: restart_budget_def simp del: BitcoinCore_deliver.simps split: if_splits)
qed

theorem restart_executes_at_most_once_witness:
  "Req_initialize \<notin> set (map fst
       [(Req_restart [''-reindex''], quiet_env), (Req_shutdown, quiet_env),
        (Req_restart [], quiet_env)])
   \<and> count_events restart_entered
        (trace (snd (BitcoinCore_deliver
           [(Req_initialize, quiet_env), (Req_restart [''-reindex''], quiet_env),
            (Req_shutdown, quiet_env), (Req_restart [], quiet_env)] BitcoinCore_ctor))) \<le> 1
   \<and> count_events process_launched
        (trace (snd (BitcoinCore_deliver
           [(Req_restart [''-reindex''], quiet_env), (Req_shutdown, quiet_env),
            (Req_restart [], quiet_env)] \<lparr>trace = [], execute_restart = Some False\<rparr>))) \<le> 0
   \<and> BitcoinCore_restart quiet_env [] \<lparr>trace = [], execute_restart = Some False\<rparr>
        = (None, \<lparr>trace = [], execute_restart = Some False\<rparr>)
   \<and> execute_restart
        (snd (BitcoinCore_restart quiet_env [] \<lparr>trace = [], execute_restart = Some True\<rparr>))
        = Some False"
  using restart_executes_at_most_once
          [where rs = "[(Req_restart [''-reindex''], quiet_env), (Req_shutdown, quiet_env),
                        (Req_restart [], quiet_env)]"
             and env = quiet_env and w = BitcoinCore_ctor and env' = quiet_env
             and args = "[]"]
        restart_executes_at_most_once
          [where rs = "[(Req_restart [''-reindex''], quiet_env), (Req_shutdown, quiet_env),
                        (Req_restart [], quiet_env)]"
             and env = quiet_env and w = "\<lparr>trace = [], execute_restart = Some False\<rparr>"
             and env' = quiet_env and args = "[]"]
        restart_executes_at_most_once
          [where rs = "[(Req_restart [''-reindex''], quiet_env), (Req_shutdown, quiet_env),
                        (Req_restart [], quiet_env)]"
             and env = quiet_env and w = "\<lparr>trace = [], execute_restart = Some True\<rparr>"
             and env' = quiet_env and args = "[]"]
  by (simp add: BitcoinCore_ctor_def count_events_def read_execute_restart_def)


subsection \<open>What the executor's slots record\<close>

lemma try_catch_normal_eq: "fst (b s) = None \<Longrightarrow> try_catch b h s = b s"
  by (cases "b s") (simp add: try_catch_def)

lemma restart_try_events:
  assumes "\<And>f. e \<noteq> Engine f" and "\<And>f m. e \<noteq> qDebug f m" and "\<And>f m n. e \<noteq> qDebug_int f m n"
    and "e \<in> set (trace (snd (BitcoinCore_restart_try env args s)))"
  shows "e \<in> set (trace s)"
proof -
  have "e \<in> set (trace (snd (BitcoinCore_restart_try env args s))) \<longrightarrow> e \<in> set (trace s)"
    unfolding BitcoinCore_restart_try_def
    by (rule block_invariant [where P = "\<lambda>s'. e \<in> set (trace s') \<longrightarrow> e \<in> set (trace s)"])
       (use assms(1-3) in \<open>auto simp: step_defs split: if_splits\<close>)
  with assms(4) show ?thesis by simp
qed

lemma shutdown_try_events:
  assumes "\<And>f. e \<noteq> Engine f" and "\<And>f m. e \<noteq> qDebug f m" and "\<And>f m n. e \<noteq> qDebug_int f m n"
    and "e \<in> set (trace (snd (BitcoinCore_shutdown_try env s)))"
  shows "e \<in> set (trace s)"
proof -
  have "e \<in> set (trace (snd (BitcoinCore_shutdown_try env s))) \<longrightarrow> e \<in> set (trace s)"
    unfolding BitcoinCore_shutdown_try_def
    by (rule block_invariant [where P = "\<lambda>s'. e \<in> set (trace s') \<longrightarrow> e \<in> set (trace s)"])
       (use assms(1-3) in \<open>auto simp: step_defs split: if_splits\<close>)
  with assms(4) show ?thesis by simp
qed

lemma restart_events:
  assumes "\<And>f. e \<noteq> Engine f" and "\<And>f m. e \<noteq> qDebug f m" and "\<And>f m n. e \<noteq> qDebug_int f m n"
    and "\<And>m. e \<noteq> Emit (runawayException m)"
    and "e \<in> set (trace (snd (BitcoinCore_restart env args s)))"
  shows "e \<in> set (trace s)"
proof (cases "read_execute_restart env s")
  case False
  with assms(5) show ?thesis by (simp add: restart_eq)
next
  case True
  let ?s = "s\<lparr>execute_restart := Some False\<rparr>"
  have "e \<in> set (trace (snd (try_catch (BitcoinCore_restart_try env args)
           (BitcoinCore_handleRunawayException env) ?s))) \<longrightarrow> e \<in> set (trace s)"
  proof (rule try_catch_invariant [where P = "\<lambda>s'. e \<in> set (trace s') \<longrightarrow> e \<in> set (trace s)"])
    show "e \<in> set (trace (snd (BitcoinCore_restart_try env args ?s))) \<longrightarrow> e \<in> set (trace s)"
      using restart_try_events [of e env args ?s] assms(1-3) by auto
  next
    fix x and s' :: BitcoinCore
    assume "e \<in> set (trace s') \<longrightarrow> e \<in> set (trace s)"
    then show "e \<in> set (trace (snd (BitcoinCore_handleRunawayException env x s')))
                 \<longrightarrow> e \<in> set (trace s)"
      using assms(1,4) by (auto simp: handler_eq)
  qed
  with True assms(5) show ?thesis by (simp add: restart_eq)
qed

lemma shutdown_events:
  assumes "\<And>f. e \<noteq> Engine f" and "\<And>f m. e \<noteq> qDebug f m" and "\<And>f m n. e \<noteq> qDebug_int f m n"
    and "\<And>m. e \<noteq> Emit (runawayException m)"
    and "e \<in> set (trace (snd (BitcoinCore_shutdown env s)))"
  shows "e \<in> set (trace s)"
proof (cases "RestartRequested env")
  case True
  with assms(5) show ?thesis by (simp add: BitcoinCore_shutdown_def skip_def)
next
  case False
  have "e \<in> set (trace (snd (try_catch (BitcoinCore_shutdown_try env)
           (BitcoinCore_handleRunawayException env) s))) \<longrightarrow> e \<in> set (trace s)"
  proof (rule try_catch_invariant [where P = "\<lambda>s'. e \<in> set (trace s') \<longrightarrow> e \<in> set (trace s)"])
    show "e \<in> set (trace (snd (BitcoinCore_shutdown_try env s))) \<longrightarrow> e \<in> set (trace s)"
      using shutdown_try_events [of e env s] assms(1-3) by auto
  next
    fix x and s' :: BitcoinCore
    assume "e \<in> set (trace s') \<longrightarrow> e \<in> set (trace s)"
    then show "e \<in> set (trace (snd (BitcoinCore_handleRunawayException env x s')))
                 \<longrightarrow> e \<in> set (trace s)"
      using assms(1,4) by (auto simp: handler_eq)
  qed
  with False assms(5) show ?thesis by (simp add: BitcoinCore_shutdown_def)
qed

lemma initialize_try_events:
  assumes "\<And>f. e \<noteq> Engine f" and "\<And>f m. e \<noteq> qDebug f m" and "\<And>f m n. e \<noteq> qDebug_int f m n"
    and "\<And>g. e \<noteq> Emit g"
    and "e \<in> set (trace (snd (BitcoinCore_initialize_try env s)))"
  shows "e \<in> set (trace s)"
proof -
  have r: "e \<in> set (trace (snd (BitcoinCore_restart env args s'))) \<Longrightarrow> e \<in> set (trace s')"
    for args s'
    using restart_events [of e env args s'] assms(1-4) by auto
  have "e \<in> set (trace (snd (BitcoinCore_initialize_try env s))) \<longrightarrow> e \<in> set (trace s)"
    unfolding BitcoinCore_initialize_try_def
    by (rule block_invariant [where P = "\<lambda>s'. e \<in> set (trace s') \<longrightarrow> e \<in> set (trace s)"])
       (use assms(1-4) r in \<open>auto simp: step_defs split: if_splits\<close>)
  with assms(5) show ?thesis by simp
qed

lemma initialize_events:
  assumes "\<And>f. e \<noteq> Engine f" and "\<And>f m. e \<noteq> qDebug f m" and "\<And>f m n. e \<noteq> qDebug_int f m n"
    and "\<And>g. e \<noteq> Emit g"
    and "e \<in> set (trace (snd (BitcoinCore_initialize env s)))"
  shows "e \<in> set (trace s)"
proof -
  let ?s = "s\<lparr>execute_restart := Some True\<rparr>"
  have "e \<in> set (trace (snd (try_catch (BitcoinCore_initialize_try env)
           (BitcoinCore_handleRunawayException env) ?s))) \<longrightarrow> e \<in> set (trace s)"
  proof (rule try_catch_invariant [where P = "\<lambda>s'. e \<in> set (trace s') \<longrightarrow> e \<in> set (trace s)"])
    show "e \<in> set (trace (snd (BitcoinCore_initialize_try env ?s))) \<longrightarrow> e \<in> set (trace s)"
      using initialize_try_events [of e env ?s] assms(1-4) by auto
  next
    fix x and s' :: BitcoinCore
    assume "e \<in> set (trace s') \<longrightarrow> e \<in> set (trace s)"
    then show "e \<in> set (trace (snd (BitcoinCore_handleRunawayException env x s')))
                 \<longrightarrow> e \<in> set (trace s)"
      using assms(1,4) by (auto simp: handler_eq)
  qed
  with assms(5) show ?thesis by (simp add: initialize_eq)
qed

lemma slot_no_gui:
  "Gui g \<in> set (trace (snd (BitcoinCore_slot env r w))) \<Longrightarrow> Gui g \<in> set (trace w)"
proof (cases r)
  case Req_initialize
  assume "Gui g \<in> set (trace (snd (BitcoinCore_slot env r w)))"
  with Req_initialize show ?thesis using initialize_events [of "Gui g" env w] by simp
next
  case Req_shutdown
  assume "Gui g \<in> set (trace (snd (BitcoinCore_slot env r w)))"
  with Req_shutdown show ?thesis using shutdown_events [of "Gui g" env w] by simp
next
  case (Req_restart args)
  assume "Gui g \<in> set (trace (snd (BitcoinCore_slot env r w)))"
  with Req_restart show ?thesis using restart_events [of "Gui g" env args w] by simp
qed

lemma initialize_try_returned:
  assumes "throws env (Engine AppInit2) = None"
  shows "BitcoinCore_initialize_try env s =
     (if ResyncNeeded env then
        if ShutdownRequested env
        then (None, s\<lparr>trace := trace s @
                [qDebug ''initialize'' '': Running AppInit2 in thread'', Engine AppInit2]\<rparr>)
        else BitcoinCore_restart env (buildParameterlist env ''-resync'')
               (s\<lparr>trace := trace s @
                  [qDebug ''initialize'' '': Running AppInit2 in thread'', Engine AppInit2]\<rparr>)
      else (None, s\<lparr>trace := trace s @
              [qDebug ''initialize'' '': Running AppInit2 in thread'', Engine AppInit2,
               Emit (initializeResult (AppInit2_rv env))]\<rparr>))"
  using assms
  by (simp add: BitcoinCore_initialize_try_def block_log block_call block_last
        if_then_apply log_def del: block.simps(2))


lemmas run_defs =
  BitcoinCore_initialize_def BitcoinCore_initialize_try_def BitcoinCore_restart_def
  BitcoinCore_restart_try_def BitcoinCore_shutdown_def BitcoinCore_shutdown_try_def
  BitcoinCore_handleRunawayException_def read_execute_restart_def try_catch_def
  log_def call_def assign_def if_then_apply if_apply skip_def abort_def
  quiet_env_def BitcoinCore_ctor_def

text \<open>
  C2, as the code has it. When \<^verbatim>\<open>AppInit2\<close> returns: with resynchronisation needed and no
  shutdown requested, \<^verbatim>\<open>initialize\<close> is the call of \<^verbatim>\<open>restart\<close> with
  \<^verbatim>\<open>buildParameterlist("-resync")\<close>, which passes the guard, and no \<^verbatim>\<open>initializeResult\<close> is
  emitted; with resynchronisation needed and a shutdown requested it does neither; with
  no resynchronisation needed it emits \<^verbatim>\<open>initializeResult\<close> once, with the return value of
  \<^verbatim>\<open>AppInit2\<close>.
\<close>

theorem initialize_outcome:
  assumes "throws env (Engine AppInit2) = None"
  shows "(ResyncNeeded env \<and> \<not> ShutdownRequested env \<longrightarrow>
            BitcoinCore_initialize env w =
              BitcoinCore_restart env (buildParameterlist env ''-resync'')
                (w\<lparr>execute_restart := Some True,
                   trace := trace w @
                     [qDebug ''initialize'' '': Running AppInit2 in thread'', Engine AppInit2]\<rparr>)
          \<and> read_execute_restart env
                (w\<lparr>execute_restart := Some True,
                   trace := trace w @
                     [qDebug ''initialize'' '': Running AppInit2 in thread'', Engine AppInit2]\<rparr>)
          \<and> (Emit (initializeResult rv) \<in> set (trace (snd (BitcoinCore_initialize env w)))
                \<longrightarrow> Emit (initializeResult rv) \<in> set (trace w)))
       \<and> (ResyncNeeded env \<and> ShutdownRequested env \<longrightarrow>
            BitcoinCore_initialize env w =
              (None, w\<lparr>execute_restart := Some True,
                        trace := trace w @
                          [qDebug ''initialize'' '': Running AppInit2 in thread'',
                           Engine AppInit2]\<rparr>))
       \<and> (\<not> ResyncNeeded env \<longrightarrow>
            BitcoinCore_initialize env w =
              (None, w\<lparr>execute_restart := Some True,
                        trace := trace w @
                          [qDebug ''initialize'' '': Running AppInit2 in thread'',
                           Engine AppInit2, Emit (initializeResult (AppInit2_rv env))]\<rparr>))"
proof -
  let ?w = "w\<lparr>execute_restart := Some True\<rparr>"
  have normal: "fst (BitcoinCore_initialize_try env ?w) = None"
    using assms by (simp add: initialize_try_returned restart_normal)
  have eq: "BitcoinCore_initialize env w = BitcoinCore_initialize_try env ?w"
    using normal by (simp add: initialize_eq try_catch_normal_eq)
  have none: "Emit (initializeResult rv) \<in> set (trace (snd (BitcoinCore_restart env args s)))
                \<Longrightarrow> Emit (initializeResult rv) \<in> set (trace s)" for args s
    using restart_events [of "Emit (initializeResult rv)" env args s] by simp
  show ?thesis
    using assms
    by (auto simp: eq initialize_try_returned read_execute_restart_def dest: none)
qed

theorem initialize_outcome_witness:
  "throws (quiet_env\<lparr>ResyncNeeded := True\<rparr>) (Engine AppInit2) = None
   \<and> BitcoinCore_initialize (quiet_env\<lparr>ResyncNeeded := True\<rparr>) BitcoinCore_ctor =
       (None, \<lparr>trace = [qDebug ''initialize'' '': Running AppInit2 in thread'', Engine AppInit2,
                        qDebug ''restart'' '': Running Restart in thread'',
                        Engine Interrupt, Engine PrepareShutdown,
                        qDebug ''restart'' '': Shutdown finished'',
                        Engine CExplicitNetCleanup_callCleanup,
                        Engine (QProcess_startDetached ''/usr/bin/nbx-qt'' [''-resync'']),
                        qDebug ''restart'' '': Restart initiated...'',
                        qDebug_int ''restart'' '': Shutdown result: '' 1,
                        Engine qApp_quit],
               execute_restart = Some False\<rparr>)
   \<and> BitcoinCore_initialize quiet_env BitcoinCore_ctor =
       (None, \<lparr>trace = [qDebug ''initialize'' '': Running AppInit2 in thread'', Engine AppInit2,
                        Emit (initializeResult 1)],
               execute_restart = Some True\<rparr>)"
  using initialize_outcome [where env = "quiet_env\<lparr>ResyncNeeded := True\<rparr>"
          and w = BitcoinCore_ctor and rv = 1]
        initialize_outcome [where env = quiet_env and w = BitcoinCore_ctor and rv = 1]
  by (simp add: run_defs)

text \<open>
  C2 as stated fails where resynchronisation is needed and a shutdown has been requested:
  the condition for the restart is false, \<^verbatim>\<open>AppInit2\<close> has returned, and no
  \<^verbatim>\<open>initializeResult\<close> is emitted.
\<close>

theorem initialize_outcome_counterexample:
  "\<not> (ResyncNeeded (quiet_env\<lparr>ResyncNeeded := True, ShutdownRequested := True\<rparr>)
        \<and> \<not> ShutdownRequested (quiet_env\<lparr>ResyncNeeded := True, ShutdownRequested := True\<rparr>))
   \<and> BitcoinCore_initialize (quiet_env\<lparr>ResyncNeeded := True, ShutdownRequested := True\<rparr>)
        BitcoinCore_ctor =
       (None, \<lparr>trace = [qDebug ''initialize'' '': Running AppInit2 in thread'', Engine AppInit2],
               execute_restart = Some True\<rparr>)
   \<and> Emit (initializeResult
              (AppInit2_rv (quiet_env\<lparr>ResyncNeeded := True, ShutdownRequested := True\<rparr>)))
       \<notin> set (trace (snd (BitcoinCore_initialize
                 (quiet_env\<lparr>ResyncNeeded := True, ShutdownRequested := True\<rparr>)
                 BitcoinCore_ctor)))"
  by (simp add: run_defs)


text \<open>
  C9. The constructor writes no latch; \<^verbatim>\<open>initialize\<close> arms it before anything else, on
  every call; a \<^verbatim>\<open>restart\<close> that comes before the first \<^verbatim>\<open>initialize\<close> acts on the
  indeterminate value it reads; and with two calls of \<^verbatim>\<open>initialize\<close> the body of
  \<^verbatim>\<open>restart\<close> runs twice, with two launches.
\<close>

theorem latch_armed_by_every_initialize:
  "execute_restart BitcoinCore_ctor = None
   \<and> read_execute_restart env BitcoinCore_ctor = indeterminate env
   \<and> BitcoinCore_restart env args BitcoinCore_ctor =
       (if indeterminate env
        then try_catch (BitcoinCore_restart_try env args) (BitcoinCore_handleRunawayException env)
               (BitcoinCore_ctor\<lparr>execute_restart := Some False\<rparr>)
        else (None, BitcoinCore_ctor))
   \<and> BitcoinCore_initialize env w =
       try_catch (BitcoinCore_initialize_try env) (BitcoinCore_handleRunawayException env)
         (w\<lparr>execute_restart := Some True\<rparr>)
   \<and> count_events restart_entered
        (trace (snd (BitcoinCore_deliver
           [(Req_initialize, quiet_env), (Req_restart [], quiet_env),
            (Req_initialize, quiet_env), (Req_restart [], quiet_env)] BitcoinCore_ctor))) = 2
   \<and> count_events process_launched
        (trace (snd (BitcoinCore_deliver
           [(Req_initialize, quiet_env), (Req_restart [], quiet_env),
            (Req_initialize, quiet_env), (Req_restart [], quiet_env)] BitcoinCore_ctor))) = 2"
proof -
  have two: "snd (BitcoinCore_deliver
           [(Req_initialize, quiet_env), (Req_restart [], quiet_env),
            (Req_initialize, quiet_env), (Req_restart [], quiet_env)] BitcoinCore_ctor) =
     \<lparr>trace = [qDebug ''initialize'' '': Running AppInit2 in thread'', Engine AppInit2,
               Emit (initializeResult 1),
               qDebug ''restart'' '': Running Restart in thread'',
               Engine Interrupt, Engine PrepareShutdown,
               qDebug ''restart'' '': Shutdown finished'',
               Engine CExplicitNetCleanup_callCleanup,
               Engine (QProcess_startDetached ''/usr/bin/nbx-qt'' []),
               qDebug ''restart'' '': Restart initiated...'',
               qDebug_int ''restart'' '': Shutdown result: '' 1,
               Engine qApp_quit,
               qDebug ''initialize'' '': Running AppInit2 in thread'', Engine AppInit2,
               Emit (initializeResult 1),
               qDebug ''restart'' '': Running Restart in thread'',
               Engine Interrupt, Engine PrepareShutdown,
               qDebug ''restart'' '': Shutdown finished'',
               Engine CExplicitNetCleanup_callCleanup,
               Engine (QProcess_startDetached ''/usr/bin/nbx-qt'' []),
               qDebug ''restart'' '': Restart initiated...'',
               qDebug_int ''restart'' '': Shutdown result: '' 1,
               Engine qApp_quit],
      execute_restart = Some False\<rparr>"
    by (simp add: run_defs)
  show ?thesis
    unfolding two
    by (simp add: restart_eq initialize_eq count_events_def)
       (simp add: BitcoinCore_ctor_def read_execute_restart_def)
qed

theorem latch_armed_by_every_initialize_witness:
  "read_execute_restart (quiet_env\<lparr>indeterminate := True\<rparr>) BitcoinCore_ctor
   \<and> \<not> read_execute_restart quiet_env BitcoinCore_ctor
   \<and> BitcoinCore_restart quiet_env [] BitcoinCore_ctor = (None, BitcoinCore_ctor)
   \<and> count_events restart_entered
        (trace (snd (BitcoinCore_restart (quiet_env\<lparr>indeterminate := True\<rparr>) []
           BitcoinCore_ctor))) = 1"
  using latch_armed_by_every_initialize [where env = quiet_env and args = "[]"]
        latch_armed_by_every_initialize
          [where env = "quiet_env\<lparr>indeterminate := True\<rparr>" and args = "[]"]
  by (simp add: run_defs count_events_def)


subsection \<open>Statements that leave a member alone\<close>

lemma unchangedD: "unchanged f c \<Longrightarrow> f (snd (c s)) = f s"
  by (simp add: unchanged_def)

lemma unchanged_skip: "unchanged f skip"
  by (simp add: unchanged_def skip_def)

lemma unchanged_abort: "unchanged f (abort x)"
  by (simp add: unchanged_def abort_def)

lemma unchanged_assign: "(\<And>s. f (g s) = f s) \<Longrightarrow> unchanged f (assign g)"
  by (simp add: unchanged_def assign_def)

lemma unchanged_log: "(\<And>s t. f (s\<lparr>trace := t\<rparr>) = f s) \<Longrightarrow> unchanged f (log e)"
  by (simp add: unchanged_def log_def)

lemma unchanged_call: "(\<And>s t. f (s\<lparr>trace := t\<rparr>) = f s) \<Longrightarrow> unchanged f (call env e)"
  by (simp add: unchanged_def call_def)

lemma unchanged_if_then: "unchanged f c \<Longrightarrow> unchanged f (if_then b c)"
  by (simp add: unchanged_def if_then_apply)

lemma unchanged_if: "unchanged f c \<Longrightarrow> unchanged f d \<Longrightarrow> unchanged f (if b then c else d)"
  by simp

lemma unchanged_block: "list_all (unchanged f) cs \<Longrightarrow> unchanged f (block cs)"
  unfolding unchanged_def
proof
  fix s
  assume a: "list_all (\<lambda>c. \<forall>s. f (snd (c s)) = f s) cs"
  show "f (snd (block cs s)) = f s"
    by (rule block_invariant [where P = "\<lambda>s'. f s' = f s"])
       (use a in \<open>auto simp: list_all_iff\<close>)
qed

lemma unchanged_try_catch_std:
  assumes "unchanged f b" and "\<And>w. unchanged f (h w)"
  shows "unchanged f (try_catch_std b h)"
  unfolding unchanged_def
proof
  fix s
  show "f (snd (try_catch_std b h s)) = f s"
  proof (cases "b s")
    case (Pair r s')
    with assms(1) have "f s' = f s" by (auto simp: unchanged_def dest: spec [of _ s])
    with Pair assms(2) show ?thesis
      by (auto simp: try_catch_std_def unchanged_def split: option.splits abrupt.splits exn.splits)
  qed
qed

lemma unchanged_on_window:
  "(\<And>s t. f (s\<lparr>trace := t\<rparr>) = f s) \<Longrightarrow> unchanged f (on_window env g)"
  by (simp add: unchanged_def on_window_def call_def)

lemma unchanged_on_paymentServer:
  "(\<And>s t. f (s\<lparr>trace := t\<rparr>) = f s) \<Longrightarrow> unchanged f (on_paymentServer env g)"
  by (simp add: unchanged_def on_paymentServer_def call_def)

lemma unchanged_exit_process:
  "(\<And>s t. f (s\<lparr>trace := t\<rparr>) = f s) \<Longrightarrow> unchanged f (exit_process n)"
  by (simp add: unchanged_def exit_process_def log_def abort_def)

lemma unchanged_critical_box:
  "(\<And>s t. f (s\<lparr>trace := t\<rparr>) = f s) \<Longrightarrow> unchanged f (critical_box env m)"
  by (simp add: unchanged_def critical_box_def call_def)

lemmas unchanged_intros =
  unchanged_skip unchanged_abort unchanged_assign unchanged_log unchanged_call
  unchanged_if_then unchanged_if unchanged_block unchanged_try_catch_std
  unchanged_on_window unchanged_on_paymentServer unchanged_exit_process unchanged_critical_box

lemma returnValue_startThread: "unchanged returnValue (startThread env)"
  unfolding unchanged_def
proof
  fix s
  show "returnValue (snd (startThread env s)) = returnValue s"
  proof (cases "coreThread s = None")
    case True
    have "unchanged returnValue
            (block [call env (Alloc new_QThread), assign (\<lambda>a. a\<lparr>coreThread := Some ()\<rparr>),
                    call env (Alloc new_BitcoinCore), call env (Gui executor_moveToThread),
                    call env (Gui coreThread_start)])"
      by (auto intro!: unchanged_intros)
    from unchangedD [OF this, of s] True show ?thesis
      by (simp add: startThread_def del: block.simps)
  next
    case False
    then show ?thesis by (simp add: startThread_def)
  qed
qed

lemma returnValue_timer_start: "unchanged returnValue (pollShutdownTimer_start_ms env ms)"
  unfolding unchanged_def
proof
  fix s
  show "returnValue (snd (pollShutdownTimer_start_ms env ms s)) = returnValue s"
  proof (cases "pollShutdownTimer s")
    case None
    then show ?thesis by (simp add: pollShutdownTimer_start_ms_def)
  next
    case (Some t)
    have "unchanged returnValue
            (block [call env (Gui (pollShutdownTimer_start ms)),
                    assign (\<lambda>a. a\<lparr>pollShutdownTimer := Some (t\<lparr>isActive := True, interval := ms\<rparr>)\<rparr>)])"
      by (auto intro!: unchanged_intros)
    from unchangedD [OF this, of s] Some show ?thesis
      by (simp add: pollShutdownTimer_start_ms_def del: block.simps)
  qed
qed

lemma returnValue_main_before_exec: "unchanged returnValue (main_before_exec env)"
  unfolding main_before_exec_def createWindow_def requestInitialize_def
  by (auto intro!: unchanged_intros returnValue_startThread returnValue_timer_start)

lemma returnValue_main_startup: "unchanged returnValue (main_startup env st)"
  unfolding main_startup_def main_wallet_ipc_def createPaymentServer_def createOptionsModel_def
    createSplashScreen_def
  by (auto intro!: unchanged_intros)


subsection \<open>The controller's slot for the init outcome\<close>

lemma initializeResult_eq:
  "BitcoinApplication_initializeResult env retval a =
     (if ShutdownRequested env then (None, a\<lparr>shutdownAllowed := True\<rparr>)
      else block [(if retval \<noteq> 0 then initializeResult_success env
                   else call env (Engine StartShutdown)),
                  assign (\<lambda>a. a\<lparr>shutdownAllowed := True\<rparr>)]
             (a\<lparr>shutdownAllowed := False,
                trace := trace a @
                  [qDebug_int ''initializeResult'' '': Initialization result: '' retval],
                returnValue := (if retval \<noteq> 0 then 0 else 1)\<rparr>))"
  by (simp add: BitcoinApplication_initializeResult_def block_assign block_log block_last
        assign_def del: block.simps(2))

lemma initializeResult_failure:
  "BitcoinApplication_initializeResult env 0 a =
     (if ShutdownRequested env then (None, a\<lparr>shutdownAllowed := True\<rparr>)
      else (case throws env (Engine StartShutdown) of
              None \<Rightarrow>
                (None, a\<lparr>shutdownAllowed := True, returnValue := 1,
                          trace := trace a @
                            [qDebug_int ''initializeResult'' '': Initialization result: '' 0,
                             Engine StartShutdown]\<rparr>)
            | Some x \<Rightarrow>
                (Some (Throw x),
                 a\<lparr>shutdownAllowed := False, returnValue := 1,
                    trace := trace a @
                      [qDebug_int ''initializeResult'' '': Initialization result: '' 0,
                       Engine StartShutdown]\<rparr>)))"
  by (simp add: initializeResult_eq block_call block_assign del: block.simps(2)
        split: option.splits)

lemma returnValue_success: "unchanged returnValue (initializeResult_success env)"
  unfolding initializeResult_success_def
  by (auto intro!: unchanged_intros)

lemma returnValue_initializeResult:
  "returnValue (snd (BitcoinApplication_initializeResult env retval a)) =
     (if ShutdownRequested env then returnValue a else if retval \<noteq> 0 then 0 else 1)"
proof -
  have "unchanged returnValue
          (block [(if retval \<noteq> 0 then initializeResult_success env
                   else call env (Engine StartShutdown)),
                  assign (\<lambda>a. a\<lparr>shutdownAllowed := True\<rparr>)])"
    by (auto intro!: unchanged_intros returnValue_success)
  from unchangedD [OF this] show ?thesis
    by (simp add: initializeResult_eq del: block.simps)
qed

lemma main_returns:
  "main_startup env st BitcoinApplication_ctor = (None, a0) \<Longrightarrow>
   main_try env evs a0 = Some (None, a') \<Longrightarrow>
   main env st evs = Some (Some (Return (returnValue a')), a')"
  by (simp add: main_def getReturnValue_def)

lemma returnValue_before_exec:
  assumes "main_startup env st BitcoinApplication_ctor = (None, a0)"
    and "main_before_exec env a0 = (None, a1)"
  shows "returnValue a1 = 0"
proof -
  have "returnValue a0 = returnValue BitcoinApplication_ctor"
    using unchangedD [OF returnValue_main_startup, of env st BitcoinApplication_ctor] assms(1)
    by simp
  moreover have "returnValue a1 = returnValue a0"
    using unchangedD [OF returnValue_main_before_exec, of env a0] assms(2) by simp
  ultimately show ?thesis by (simp add: BitcoinApplication_ctor_def)
qed

lemmas app_defs =
  main_startup_def main_wallet_ipc_def main_before_exec_def createWindow_def
  requestInitialize_def startThread_def createPaymentServer_def createOptionsModel_def
  createSplashScreen_def pollShutdownTimer_start_ms_def pollShutdownTimer_stop_now_def
  critical_box_def exit_process_def try_catch_std_def on_window_def on_paymentServer_def
  BitcoinApplication_ctor_def plain_startup_def quiet_env_def
  log_def call_def assign_def if_then_apply if_apply skip_def abort_def

lemma main_startup_quiet:
  "main_startup quiet_env plain_startup BitcoinApplication_ctor =
     (None,
      \<lparr>trace =
         [Startup install_fault_handlers, Startup SetupEnvironment,
          Startup ParseParameters, Startup (Q_INIT_RESOURCE ''nbx_locale''),
          Startup (Q_INIT_RESOURCE ''nbx''), Alloc new_BitcoinApplication,
          Startup qt_application_setup, Startup initTranslations,
          Startup Intro_pickDataDirectory, Startup ReadConfigFile,
          Startup PaymentServer_ipcParseCommandLine,
          Startup NetworkStyle_instantiate, Startup initTranslations,
          Startup masternodeConfig_read,
          Startup PaymentServer_ipcSendCommandLine,
          Startup (PaymentServer_ipcSendCommand ''nbx:show''),
          Alloc new_PaymentServer, Startup install_event_filters,
          Startup qInstallMessageHandler, Alloc new_OptionsModel,
          Alloc new_SplashScreen, Gui splash_show],
       coreThread = None, optionsModel = Some (), clientModel = None,
       window = None, pollShutdownTimer = None, shutdownMonitor = None,
       paymentServer = Some (), walletModel = None, shutdownAllowed = True,
       returnValue = 0\<rparr>)"
  by (simp add: app_defs)

lemma main_before_exec_quiet:
  "main_before_exec quiet_env
     \<lparr>trace = t, coreThread = None, optionsModel = Some (), clientModel = None,
      window = None, pollShutdownTimer = None, shutdownMonitor = None,
      paymentServer = Some (), walletModel = None, shutdownAllowed = True,
      returnValue = 0\<rparr> =
     (None,
      \<lparr>trace = t @
         [Alloc new_BitcoinGUI, Alloc new_QTimer, Gui (pollShutdownTimer_start 200),
          qDebug ''requestInitialize'' '': Requesting initialize'',
          Alloc new_QThread, Alloc new_BitcoinCore, Gui executor_moveToThread,
          Gui coreThread_start, Emit requestedInitialize],
       coreThread = Some (), optionsModel = Some (), clientModel = None,
       window = Some (),
       pollShutdownTimer = Some \<lparr>isActive = True, interval = 200\<rparr>,
       shutdownMonitor = None, paymentServer = Some (), walletModel = None,
       shutdownAllowed = True, returnValue = 0\<rparr>)"
  by (simp add: app_defs)


lemma quiet_reaches_exec:
  obtains a0 a1 where "main_startup quiet_env plain_startup BitcoinApplication_ctor = (None, a0)"
    and "main_before_exec quiet_env a0 = (None, a1)"
  using main_startup_quiet main_before_exec_quiet by blast

text \<open>
  C10. With a shutdown already requested, \<^verbatim>\<open>initializeResult(retval)\<close> only re-opens the
  gate: nothing is recorded, no member but \<^verbatim>\<open>shutdownAllowed\<close> changes. When this is the
  only init outcome of the run, \<^verbatim>\<open>main\<close> returns the initial \<^verbatim>\<open>returnValue\<close>, which is 0,
  whatever \<open>retval\<close> is.
\<close>

theorem initializeResult_after_shutdown_request:
  assumes "ShutdownRequested env1"
  shows "BitcoinApplication_initializeResult env1 retval a = (None, a\<lparr>shutdownAllowed := True\<rparr>)
       \<and> returnValue BitcoinApplication_ctor = 0
       \<and> (main_startup env st BitcoinApplication_ctor = (None, a0)
            \<and> main_before_exec env a0 = (None, a1) \<longrightarrow>
          main env st ((Slot_initializeResult retval, env1) # (Slot_quit, env2) # evs) =
            Some (Some (Return 0), a1\<lparr>shutdownAllowed := True\<rparr>))"
proof -
  have one: "BitcoinApplication_initializeResult env1 retval a = (None, a\<lparr>shutdownAllowed := True\<rparr>)"
    for a
    using assms by (simp add: initializeResult_eq)
  have "main env st ((Slot_initializeResult retval, env1) # (Slot_quit, env2) # evs) =
          Some (Some (Return 0), a1\<lparr>shutdownAllowed := True\<rparr>)"
    if s: "main_startup env st BitcoinApplication_ctor = (None, a0)"
      and b: "main_before_exec env a0 = (None, a1)"
  proof -
    have "main_try env ((Slot_initializeResult retval, env1) # (Slot_quit, env2) # evs) a0 =
            Some (None, a1\<lparr>shutdownAllowed := True\<rparr>)"
      using b by (simp add: main_try_def one)
    from main_returns [OF s this] returnValue_before_exec [OF s b] show ?thesis by simp
  qed
  then show ?thesis using one by (simp add: BitcoinApplication_ctor_def)
qed

theorem initializeResult_after_shutdown_request_witness:
  "ShutdownRequested (quiet_env\<lparr>ShutdownRequested := True\<rparr>)
   \<and> BitcoinApplication_initializeResult (quiet_env\<lparr>ShutdownRequested := True\<rparr>) 0 running_app
       = (None, running_app)
   \<and> map_option (\<lambda>r. exit_status (fst r))
       (main quiet_env plain_startup
          [(Slot_initializeResult 0, quiet_env\<lparr>ShutdownRequested := True\<rparr>),
           (Slot_quit, quiet_env)]) = Some (Some 0)"
proof -
  obtain a0 a1 where s: "main_startup quiet_env plain_startup BitcoinApplication_ctor = (None, a0)"
    and b: "main_before_exec quiet_env a0 = (None, a1)"
    by (rule quiet_reaches_exec)
  have h: "ShutdownRequested (quiet_env\<lparr>ShutdownRequested := True\<rparr>)"
    by (simp add: quiet_env_def)
  from initializeResult_after_shutdown_request
         [OF h, where retval = 0 and a = running_app and env = quiet_env and st = plain_startup
            and ?a0.0 = a0 and ?a1.0 = a1 and ?env2.0 = quiet_env and evs = "[]"] s b h
  show ?thesis by (simp add: running_app_def)
qed

text \<open>
  C4, as the code has it. \<^verbatim>\<open>initializeResult(0)\<close> constructs no model and shows no window.
  It calls \<^verbatim>\<open>StartShutdown()\<close> when no shutdown has been requested yet; when one has, it
  returns at once and calls nothing.
\<close>

theorem init_failure_shows_no_window:
  "BitcoinApplication_initializeResult env 0 a =
     (if ShutdownRequested env then (None, a\<lparr>shutdownAllowed := True\<rparr>)
      else (case throws env (Engine StartShutdown) of
              None \<Rightarrow>
                (None, a\<lparr>shutdownAllowed := True, returnValue := 1,
                          trace := trace a @
                            [qDebug_int ''initializeResult'' '': Initialization result: '' 0,
                             Engine StartShutdown]\<rparr>)
            | Some x \<Rightarrow>
                (Some (Throw x),
                 a\<lparr>shutdownAllowed := False, returnValue := 1,
                    trace := trace a @
                      [qDebug_int ''initializeResult'' '': Initialization result: '' 0,
                       Engine StartShutdown]\<rparr>)))
   \<and> clientModel (snd (BitcoinApplication_initializeResult env 0 a)) = clientModel a
   \<and> walletModel (snd (BitcoinApplication_initializeResult env 0 a)) = walletModel a
   \<and> (Gui window_show \<in> set (trace (snd (BitcoinApplication_initializeResult env 0 a))))
       = (Gui window_show \<in> set (trace a))
   \<and> (Gui window_showMinimized \<in> set (trace (snd (BitcoinApplication_initializeResult env 0 a))))
       = (Gui window_showMinimized \<in> set (trace a))
   \<and> (Alloc new_ClientModel \<in> set (trace (snd (BitcoinApplication_initializeResult env 0 a))))
       = (Alloc new_ClientModel \<in> set (trace a))
   \<and> (Alloc new_WalletModel \<in> set (trace (snd (BitcoinApplication_initializeResult env 0 a))))
       = (Alloc new_WalletModel \<in> set (trace a))
   \<and> (Engine StartShutdown \<in> set (trace (snd (BitcoinApplication_initializeResult env 0 a))))
       = (if ShutdownRequested env then Engine StartShutdown \<in> set (trace a) else True)"
  by (simp add: initializeResult_failure split: option.splits)

theorem init_failure_shows_no_window_witness:
  "BitcoinApplication_initializeResult quiet_env 0 running_app =
     (None, running_app\<lparr>returnValue := 1,
              trace := [qDebug_int ''initializeResult'' '': Initialization result: '' 0,
                        Engine StartShutdown]\<rparr>)"
  using init_failure_shows_no_window [where env = quiet_env and a = running_app]
  by (simp add: quiet_env_def running_app_def)

text \<open>
  C4 as stated fails for an init failure that arrives after a shutdown request: the
  handler returns before the call of \<^verbatim>\<open>StartShutdown()\<close>.
\<close>

theorem init_failure_shows_no_window_counterexample:
  "BitcoinApplication_initializeResult (quiet_env\<lparr>ShutdownRequested := True\<rparr>) 0 running_app
     = (None, running_app)
   \<and> Engine StartShutdown
       \<notin> set (trace (snd (BitcoinApplication_initializeResult
                 (quiet_env\<lparr>ShutdownRequested := True\<rparr>) 0 running_app)))"
  by (simp add: initializeResult_failure quiet_env_def running_app_def)

text \<open>
  C5, as the code has it. An init outcome handled while no shutdown has been requested
  sets \<^verbatim>\<open>returnValue\<close> to 0 for a non-zero \<open>retval\<close> and to 1 for \<open>retval = 0\<close>; one handled
  after a shutdown request leaves \<^verbatim>\<open>returnValue\<close> as it was. \<^verbatim>\<open>main\<close> returns the
  \<^verbatim>\<open>returnValue\<close> the controller has when the event loop ends.
\<close>

theorem returnValue_of_init_outcome:
  "returnValue (snd (BitcoinApplication_initializeResult env1 retval a)) =
     (if ShutdownRequested env1 then returnValue a else if retval \<noteq> 0 then 0 else 1)
   \<and> (main_startup env st BitcoinApplication_ctor = (None, a0)
        \<and> main_try env evs a0 = Some (None, a') \<longrightarrow>
      main env st evs = Some (Some (Return (returnValue a')), a'))
   \<and> (main_startup env st BitcoinApplication_ctor = (None, a0)
        \<and> main_before_exec env a0 = (None, a1)
        \<and> \<not> ShutdownRequested env1
        \<and> BitcoinApplication_initializeResult env1 retval a1 = (None, a2) \<longrightarrow>
      main env st [(Slot_initializeResult retval, env1), (Slot_quit, env2)] =
        Some (Some (Return (if retval \<noteq> 0 then 0 else 1)), a2))"
proof -
  have "main env st [(Slot_initializeResult retval, env1), (Slot_quit, env2)] =
          Some (Some (Return (if retval \<noteq> 0 then 0 else 1)), a2)"
    if s: "main_startup env st BitcoinApplication_ctor = (None, a0)"
      and b: "main_before_exec env a0 = (None, a1)"
      and n: "\<not> ShutdownRequested env1"
      and i: "BitcoinApplication_initializeResult env1 retval a1 = (None, a2)"
  proof -
    have "main_try env [(Slot_initializeResult retval, env1), (Slot_quit, env2)] a0 =
            Some (None, a2)"
      using b i by (simp add: main_try_def)
    from main_returns [OF s this] returnValue_initializeResult [of env1 retval a1] n i
    show ?thesis by simp
  qed
  then show ?thesis
    using returnValue_initializeResult [of env1 retval a] main_returns [of env st a0 evs a']
    by simp
qed

theorem returnValue_of_init_outcome_witness:
  "map_option (\<lambda>r. exit_status (fst r))
     (main quiet_env plain_startup [(Slot_initializeResult 0, quiet_env), (Slot_quit, quiet_env)])
     = Some (Some 1)
   \<and> returnValue (snd (BitcoinApplication_initializeResult quiet_env 7 running_app)) = 0"
proof -
  obtain a0 a1 where s: "main_startup quiet_env plain_startup BitcoinApplication_ctor = (None, a0)"
    and b: "main_before_exec quiet_env a0 = (None, a1)"
    by (rule quiet_reaches_exec)
  have n: "\<not> ShutdownRequested quiet_env" by (simp add: quiet_env_def)
  obtain a2 where i: "BitcoinApplication_initializeResult quiet_env 0 a1 = (None, a2)"
    by (simp add: initializeResult_failure) (simp add: quiet_env_def)
  from returnValue_of_init_outcome
         [where ?env1.0 = quiet_env and retval = 0 and env = quiet_env and st = plain_startup
            and ?a0.0 = a0 and ?a1.0 = a1 and ?a2.0 = a2 and ?env2.0 = quiet_env] s b n i
  have "main quiet_env plain_startup [(Slot_initializeResult 0, quiet_env), (Slot_quit, quiet_env)]
          = Some (Some (Return 1), a2)"
    by simp
  moreover from returnValue_of_init_outcome
         [where ?env1.0 = quiet_env and retval = 7 and a = running_app] n
  have "returnValue (snd (BitcoinApplication_initializeResult quiet_env 7 running_app)) = 0"
    by simp
  ultimately show ?thesis by simp
qed

text \<open>
  C5 as stated fails for \<open>retval = 0\<close> handled after a shutdown request: \<^verbatim>\<open>returnValue\<close>
  stays 0 and the process returns 0.
\<close>

theorem returnValue_of_init_outcome_counterexample:
  "returnValue (snd (BitcoinApplication_initializeResult
                       (quiet_env\<lparr>ShutdownRequested := True\<rparr>) 0 running_app)) = 0
   \<and> returnValue (snd (BitcoinApplication_initializeResult
                       (quiet_env\<lparr>ShutdownRequested := True\<rparr>) 0 running_app)) \<noteq> 1"
  by (simp add: returnValue_initializeResult quiet_env_def running_app_def)


subsection \<open>The wait for the gate\<close>

lemma wait_open: "shutdownAllowed a \<Longrightarrow> requestShutdown_wait env n a = Some (None, a)"
  by (subst requestShutdown_wait.simps) simp

lemma wait_closed:
  "\<not> shutdownAllowed a \<Longrightarrow>
   requestShutdown_wait env n a =
     (case requestShutdown_pass env n a of
        (None, a') \<Rightarrow> requestShutdown_wait env (Suc n) a'
      | (Some x, a') \<Rightarrow> Some (Some x, a'))"
  by (subst requestShutdown_wait.simps) simp






subsection \<open>After the wait\<close>

lemmas shutdown_defs =
  requestShutdown_after_wait_def startThread_def on_window_def pollShutdownTimer_stop_now_def
  delete_walletModel_ptr_def delete_clientModel_ptr_def
  log_def call_def assign_def if_then_apply if_apply skip_def abort_def

lemma after_wait_normal:
  assumes "\<forall>e. throws env e = None" and "window a \<noteq> None" and "pollShutdownTimer a = Some t"
  shows "requestShutdown_after_wait env a =
     (None,
      a\<lparr>coreThread := Some (),
        pollShutdownTimer := Some (t\<lparr>isActive := False\<rparr>),
        walletModel := (if ENABLE_WALLET env then None else walletModel a),
        clientModel := None,
        trace := trace a
          @ (if coreThread a = None
             then [Alloc new_QThread, Alloc new_BitcoinCore, Gui executor_moveToThread,
                   Gui coreThread_start]
             else [])
          @ (if Q_OS_MAC env \<and> GetBoolArg env ''-hide'' False
             then [Gui (MacDockIconHandler_toggleForegroundApp False)] else [])
          @ [Gui window_hide, Gui (window_setClientModel False), Gui pollShutdownTimer_stop]
          @ (if ENABLE_WALLET env
             then Gui window_removeAllWallets
                  # (if walletModel a \<noteq> None then [Alloc delete_walletModel] else [])
             else [])
          @ (if clientModel a \<noteq> None then [Alloc delete_clientModel] else [])
          @ [if Q_OS_WIN env \<and> isShuttingDown env
             then Gui (LogPrintf (''System shutdown'' @ [CHR 0x0A]))
             else Gui ShutdownWindow_showShutdownWindow,
             Emit requestedShutdown]\<rparr>)"
  using assms by (cases a) (simp add: shutdown_defs)


lemma unchanged_startThread:
  assumes "\<And>s t. f (s\<lparr>trace := t\<rparr>) = f s" and "\<And>s. f (s\<lparr>coreThread := Some ()\<rparr>) = f s"
  shows "unchanged f (startThread env)"
  unfolding unchanged_def
proof
  fix s
  show "f (snd (startThread env s)) = f s"
  proof (cases "coreThread s = None")
    case True
    have "unchanged f
            (block [call env (Alloc new_QThread), assign (\<lambda>a. a\<lparr>coreThread := Some ()\<rparr>),
                    call env (Alloc new_BitcoinCore), call env (Gui executor_moveToThread),
                    call env (Gui coreThread_start)])"
      using assms by (auto intro!: unchanged_intros)
    from unchangedD [OF this, of s] True show ?thesis
      by (simp add: startThread_def del: block.simps)
  next
    case False
    then show ?thesis by (simp add: startThread_def)
  qed
qed






lemma timer_requestInitialize: "unchanged pollShutdownTimer (requestInitialize env)"
  unfolding requestInitialize_def
  by (auto intro!: unchanged_intros unchanged_startThread)

lemma timer_initializeResult:
  "unchanged pollShutdownTimer (BitcoinApplication_initializeResult env retval)"
  unfolding BitcoinApplication_initializeResult_def initializeResult_success_def
  by (auto intro!: unchanged_intros)

lemma timer_main_startup: "unchanged pollShutdownTimer (main_startup env st)"
  unfolding main_startup_def main_wallet_ipc_def createPaymentServer_def createOptionsModel_def
    createSplashScreen_def
  by (auto intro!: unchanged_intros)

lemma createWindow_normal:
  "\<forall>e. throws env e = None \<Longrightarrow>
   createWindow env a =
     (None, a\<lparr>window := Some (),
              pollShutdownTimer := Some \<lparr>isActive = True, interval = 200\<rparr>,
              trace := trace a @
                [Alloc new_BitcoinGUI, Alloc new_QTimer, Gui (pollShutdownTimer_start 200)]\<rparr>)"
  by (cases a)
     (simp add: createWindow_def pollShutdownTimer_start_ms_def call_def assign_def)

lemma createWindow_timer_has_window:
  "pollShutdownTimer a = None \<Longrightarrow>
   pollShutdownTimer (snd (createWindow env a)) \<noteq> None \<Longrightarrow>
   window (snd (createWindow env a)) = Some ()"
  by (cases a)
     (auto simp: createWindow_def pollShutdownTimer_start_ms_def call_def assign_def
        split: option.splits if_splits)





lemmas shutdown_run_defs =
  requestShutdown_def wait_closed wait_open requestShutdown_pass_def shutdown_defs
  late_gate_env_def quiet_env_def waiting_app_def running_app_def



text \<open>
  C7, as the code has it. Neither window nor timer exists after the constructor. Only
  \<^verbatim>\<open>createWindow\<close> creates and starts the timer, after it has created the window
  (\<^verbatim>\<open>requestInitialize\<close>, \<^verbatim>\<open>initializeResult\<close> and the startup steps of \<^verbatim>\<open>main\<close> leave the timer
  alone). In \<^verbatim>\<open>requestShutdown\<close> the timer is stopped after the wait for the gate,
  \<^verbatim>\<open>startThread()\<close>, \<^verbatim>\<open>window->hide()\<close> and \<^verbatim>\<open>window->setClientModel(0)\<close>, and before the
  models are deleted and \<^verbatim>\<open>requestedShutdown\<close> is emitted.
\<close>

theorem poll_timer_lifetime:
  "pollShutdownTimer BitcoinApplication_ctor = None
   \<and> window BitcoinApplication_ctor = None
   \<and> unchanged pollShutdownTimer (main_startup env st)
   \<and> unchanged pollShutdownTimer (requestInitialize env)
   \<and> unchanged pollShutdownTimer (BitcoinApplication_initializeResult env retval)
   \<and> (pollShutdownTimer a = None \<and> pollShutdownTimer (snd (createWindow env a)) \<noteq> None
        \<longrightarrow> window (snd (createWindow env a)) = Some ())
   \<and> ((\<forall>e. throws env e = None) \<longrightarrow>
        createWindow env a =
          (None, a\<lparr>window := Some (),
                   pollShutdownTimer := Some \<lparr>isActive = True, interval = 200\<rparr>,
                   trace := trace a @
                     [Alloc new_BitcoinGUI, Alloc new_QTimer,
                      Gui (pollShutdownTimer_start 200)]\<rparr>))
   \<and> ((\<forall>e. throws env e = None) \<and> window a \<noteq> None \<and> pollShutdownTimer a = Some t \<longrightarrow>
        requestShutdown_after_wait env a =
          (None,
           a\<lparr>coreThread := Some (),
             pollShutdownTimer := Some (t\<lparr>isActive := False\<rparr>),
             walletModel := (if ENABLE_WALLET env then None else walletModel a),
             clientModel := None,
             trace := trace a
               @ (if coreThread a = None
                  then [Alloc new_QThread, Alloc new_BitcoinCore, Gui executor_moveToThread,
                        Gui coreThread_start]
                  else [])
               @ (if Q_OS_MAC env \<and> GetBoolArg env ''-hide'' False
                  then [Gui (MacDockIconHandler_toggleForegroundApp False)] else [])
               @ [Gui window_hide, Gui (window_setClientModel False), Gui pollShutdownTimer_stop]
               @ (if ENABLE_WALLET env
                  then Gui window_removeAllWallets
                       # (if walletModel a \<noteq> None then [Alloc delete_walletModel] else [])
                  else [])
               @ (if clientModel a \<noteq> None then [Alloc delete_clientModel] else [])
               @ [if Q_OS_WIN env \<and> isShuttingDown env
                  then Gui (LogPrintf (''System shutdown'' @ [CHR 0x0A]))
                  else Gui ShutdownWindow_showShutdownWindow,
                  Emit requestedShutdown]\<rparr>))"
  using timer_main_startup [of env st] timer_requestInitialize [of env]
    timer_initializeResult [of env retval] createWindow_timer_has_window [of a env]
    createWindow_normal [of env a] after_wait_normal [of env a t]
  by (simp add: BitcoinApplication_ctor_def)

theorem poll_timer_lifetime_witness:
  "(\<forall>e. throws quiet_env e = None)
   \<and> createWindow quiet_env BitcoinApplication_ctor =
       (None, BitcoinApplication_ctor
                \<lparr>window := Some (),
                 pollShutdownTimer := Some \<lparr>isActive = True, interval = 200\<rparr>,
                 trace := [Alloc new_BitcoinGUI, Alloc new_QTimer,
                           Gui (pollShutdownTimer_start 200)]\<rparr>)
   \<and> requestShutdown_after_wait quiet_env running_app =
       (None, running_app
                \<lparr>pollShutdownTimer := Some \<lparr>isActive = False, interval = 200\<rparr>,
                 trace := [Gui window_hide, Gui (window_setClientModel False),
                           Gui pollShutdownTimer_stop, Gui window_removeAllWallets,
                           Gui ShutdownWindow_showShutdownWindow, Emit requestedShutdown]\<rparr>)"
  using poll_timer_lifetime [where env = quiet_env and a = BitcoinApplication_ctor]
        poll_timer_lifetime [where env = quiet_env and a = running_app
          and t = "\<lparr>isActive = True, interval = 200\<rparr>"]
  by (simp add: quiet_env_def running_app_def BitcoinApplication_ctor_def)

text \<open>
  C7 as stated fails: the first actions of \<^verbatim>\<open>requestShutdown\<close> are not the stop of the timer.
  With the gate open, \<^verbatim>\<open>window->hide()\<close> and \<^verbatim>\<open>window->setClientModel(0)\<close> come before it; with
  the gate closed, the timer is still active after a pass of the loop, in which
  \<^verbatim>\<open>processEvents()\<close> has run.
\<close>

theorem poll_timer_lifetime_counterexample:
  "map_option (\<lambda>r. trace (snd r)) (requestShutdown quiet_env running_app) =
     Some [qDebug ''requestShutdown'' '': Requesting shutdown'',
           Gui window_hide, Gui (window_setClientModel False), Gui pollShutdownTimer_stop,
           Gui window_removeAllWallets, Gui ShutdownWindow_showShutdownWindow,
           Emit requestedShutdown]
   \<and> before (Gui window_hide) (Gui pollShutdownTimer_stop)
        [qDebug ''requestShutdown'' '': Requesting shutdown'',
         Gui window_hide, Gui (window_setClientModel False), Gui pollShutdownTimer_stop,
         Gui window_removeAllWallets, Gui ShutdownWindow_showShutdownWindow,
         Emit requestedShutdown]
   \<and> pollShutdownTimer
        (snd (requestShutdown_pass late_gate_env 0
           (waiting_app\<lparr>trace := [qDebug ''requestShutdown'' '': Requesting shutdown'']\<rparr>)))
       = Some \<lparr>isActive = True, interval = 200\<rparr>
   \<and> trace
        (snd (requestShutdown_pass late_gate_env 0
           (waiting_app\<lparr>trace := [qDebug ''requestShutdown'' '': Requesting shutdown'']\<rparr>)))
       = [qDebug ''requestShutdown'' '': Requesting shutdown'',
          Gui QApplication_processEvents, Gui (MilliSleep 100)]"
  by (simp add: shutdown_run_defs before_def)


subsection \<open>What the startup of main records\<close>

lemma records_onlyD:
  "records_only A c \<Longrightarrow> e \<in> set (trace (snd (c s))) \<Longrightarrow> e \<notin> A \<Longrightarrow> e \<in> set (trace s)"
  by (auto simp: records_only_def)

lemma records_only_skip: "records_only A skip"
  by (simp add: records_only_def skip_def)

lemma records_only_abort: "records_only A (abort x)"
  by (simp add: records_only_def abort_def)

lemma records_only_assign: "(\<And>s. trace (g s) = trace s) \<Longrightarrow> records_only A (assign g)"
  by (simp add: records_only_def assign_def)

lemma records_only_log: "e \<in> A \<Longrightarrow> records_only A (log e)"
  by (auto simp: records_only_def log_def)

lemma records_only_call: "e \<in> A \<Longrightarrow> records_only A (call env e)"
  by (auto simp: records_only_def call_def)

lemma records_only_if_then: "records_only A c \<Longrightarrow> records_only A (if_then b c)"
  by (simp add: records_only_def if_then_apply)

lemma records_only_block: "list_all (records_only A) cs \<Longrightarrow> records_only A (block cs)"
  unfolding records_only_def
proof (intro allI impI)
  fix s e
  assume a: "list_all (\<lambda>c. \<forall>s e. e \<in> set (trace (snd (c s))) \<longrightarrow> e \<in> set (trace s) \<or> e \<in> A) cs"
    and e: "e \<in> set (trace (snd (block cs s)))"
  have "e \<in> set (trace (snd (block cs s))) \<longrightarrow> e \<in> set (trace s) \<or> e \<in> A"
    by (rule block_invariant
          [where P = "\<lambda>s'. e \<in> set (trace s') \<longrightarrow> e \<in> set (trace s) \<or> e \<in> A"])
       (use a in \<open>auto simp: list_all_iff\<close>)
  with e show "e \<in> set (trace s) \<or> e \<in> A" by simp
qed

lemma records_only_try_catch_std:
  assumes "records_only A b" and "\<And>w. records_only A (h w)"
  shows "records_only A (try_catch_std b h)"
  unfolding records_only_def
proof (intro allI impI)
  fix s e
  assume e: "e \<in> set (trace (snd (try_catch_std b h s)))"
  obtain r s' where p: "b s = (r, s')" by (cases "b s")
  have b: "x \<in> set (trace s') \<Longrightarrow> x \<in> set (trace s) \<or> x \<in> A" for x
    using assms(1) p by (auto simp: records_only_def dest: spec [of _ s])
  have h: "x \<in> set (trace (snd (h w s'))) \<Longrightarrow> x \<in> set (trace s') \<or> x \<in> A" for x w
    using assms(2) [of w] by (auto simp: records_only_def)
  from e p show "e \<in> set (trace s) \<or> e \<in> A"
    by (auto simp: try_catch_std_def split: option.splits abrupt.splits exn.splits
          dest: b h)
qed

lemma records_only_exit_process: "Gui (exit_call n) \<in> A \<Longrightarrow> records_only A (exit_process n)"
  by (auto simp: records_only_def exit_process_def log_def abort_def)

lemma records_only_critical_box:
  "Gui (QMessageBox_critical ''Netbox.Wallet'' m) \<in> A \<Longrightarrow> records_only A (critical_box env m)"
  by (auto simp: records_only_def critical_box_def call_def)

lemmas records_only_intros =
  records_only_skip records_only_abort records_only_assign records_only_log records_only_call
  records_only_if_then records_only_block records_only_try_catch_std
  records_only_exit_process records_only_critical_box

lemma main_startup_records:
  "records_only (- {Alloc new_BitcoinGUI, Alloc new_QTimer, Alloc new_QThread,
                    Gui coreThread_start, Gui (pollShutdownTimer_start 200)})
     (main_startup env st)"
  unfolding main_startup_def main_wallet_ipc_def createPaymentServer_def createOptionsModel_def
    createSplashScreen_def
  by (auto intro!: records_only_intros)

lemma main_startup_creates_nothing:
  assumes "e \<in> {Alloc new_BitcoinGUI, Alloc new_QTimer, Alloc new_QThread,
                Gui coreThread_start, Gui (pollShutdownTimer_start 200)}"
  shows "e \<notin> set (trace (snd (main_startup env st BitcoinApplication_ctor)))"
proof
  assume "e \<in> set (trace (snd (main_startup env st BitcoinApplication_ctor)))"
  from records_onlyD [OF main_startup_records this] assms
  show False by (simp add: BitcoinApplication_ctor_def)
qed

lemma block_abrupt_step:
  "c \<in> set cs \<Longrightarrow> (\<And>s. fst (c s) \<noteq> None) \<Longrightarrow> fst (block cs s) \<noteq> None"
proof (induction cs arbitrary: s)
  case Nil
  then show ?case by simp
next
  case (Cons d ds)
  obtain r s' where p: "d s = (r, s')" by (cases "d s")
  show ?case
  proof (cases r)
    case None
    with p Cons.prems(2) [of s] have "d \<noteq> c" by auto
    with Cons.prems(1) have "c \<in> set ds" by simp
    from Cons.IH [OF this Cons.prems(2)] None p show ?thesis by simp
  next
    case (Some x)
    with p show ?thesis by simp
  qed
qed

lemma probe_answered_exits:
  assumes "ipcSendCommand_rv st ''nbx:show''"
  shows "fst (main_wallet_ipc env st s) \<noteq> None"
  unfolding main_wallet_ipc_def
proof (rule block_abrupt_step [where c = "if_then (ipcSendCommand_rv st ''nbx:show'') (exit_process 0)"])
  show "fst (if_then (ipcSendCommand_rv st ''nbx:show'') (exit_process 0) s) \<noteq> None" for s
    using assms by (simp add: if_then_apply exit_process_def log_def abort_def)
qed simp

lemma startup_ends_at_probe:
  assumes "ENABLE_WALLET env" and "ipcSendCommand_rv st ''nbx:show''"
  shows "fst (main_startup env st s) \<noteq> None"
  unfolding main_startup_def
proof (rule block_abrupt_step [where c = "if_then (ENABLE_WALLET env) (main_wallet_ipc env st)"])
  show "fst (if_then (ENABLE_WALLET env) (main_wallet_ipc env st) s) \<noteq> None" for s
    using assms probe_answered_exits [of st env s] by (simp add: if_then_apply)
qed simp

lemma main_ends_in_startup:
  "fst (main_startup env st BitcoinApplication_ctor) \<noteq> None \<Longrightarrow>
   main env st evs = Some (main_startup env st BitcoinApplication_ctor)"
  by (cases "main_startup env st BitcoinApplication_ctor") (auto simp: main_def)

lemma main_wallet_ipc_probe_answered:
  assumes "\<forall>e. throws env e = None"
    and "masternodeConfig_read_rv st" and "\<not> ipcSendCommandLine_rv st"
    and "ipcSendCommand_rv st ''nbx:show''"
  shows "main_wallet_ipc env st s =
     (Some (ProcessExit 0),
      s\<lparr>trace := trace s
           @ [Startup masternodeConfig_read, Startup PaymentServer_ipcSendCommandLine]
           @ (if WIN32 env then [Startup AllowSetForegroundWindow] else [])
           @ [Startup (PaymentServer_ipcSendCommand ''nbx:show''), Gui (exit_call 0)]\<rparr>)"
  using assms
  by (simp add: main_wallet_ipc_def critical_box_def exit_process_def
        log_def call_def assign_def if_then_apply if_apply skip_def abort_def)

lemma main_startup_probe_answered:
  assumes "\<forall>e. throws env e = None" and "ENABLE_WALLET env"
    and "\<not> help_requested st" and "pickDataDirectory_rv st" and "datadir_is_directory st"
    and "SelectParamsFromCommandLine_rv st" and "\<not> networkStyle_isNull st"
    and "masternodeConfig_read_rv st" and "\<not> ipcSendCommandLine_rv st"
    and "ipcSendCommand_rv st ''nbx:show''"
  shows "main_startup env st BitcoinApplication_ctor =
     (Some (ProcessExit 0),
      BitcoinApplication_ctor
        \<lparr>trace :=
           [Startup install_fault_handlers, Startup SetupEnvironment, Startup ParseParameters,
            Startup (Q_INIT_RESOURCE ''nbx_locale''), Startup (Q_INIT_RESOURCE ''nbx'')]
           @ (if Q_OS_MAC env \<and> GetBoolArg env ''-hide'' False
              then [Startup (qputenv ''QT_MAC_DISABLE_FOREGROUND_APPLICATION_TRANSFORM'' ''1'')]
              else [])
           @ [Alloc new_BitcoinApplication, Startup qt_application_setup,
              Startup initTranslations, Startup Intro_pickDataDirectory, Startup ReadConfigFile,
              Startup PaymentServer_ipcParseCommandLine, Startup NetworkStyle_instantiate,
              Startup initTranslations, Startup masternodeConfig_read,
              Startup PaymentServer_ipcSendCommandLine]
           @ (if WIN32 env then [Startup AllowSetForegroundWindow] else [])
           @ [Startup (PaymentServer_ipcSendCommand ''nbx:show''), Gui (exit_call 0)]\<rparr>)"
proof -
  have w: "main_wallet_ipc env st s =
     (Some (ProcessExit 0),
      s\<lparr>trace := trace s
           @ [Startup masternodeConfig_read, Startup PaymentServer_ipcSendCommandLine]
           @ (if WIN32 env then [Startup AllowSetForegroundWindow] else [])
           @ [Startup (PaymentServer_ipcSendCommand ''nbx:show''), Gui (exit_call 0)]\<rparr>)" for s
    using assms by (rule_tac main_wallet_ipc_probe_answered) simp_all
  show ?thesis
    using assms(1-7)
    by (simp add: main_startup_def w critical_box_def try_catch_std_def
          BitcoinApplication_ctor_def
          log_def call_def assign_def if_then_apply if_apply skip_def abort_def)
qed


subsection \<open>The trace is a log\<close>

lemma appendsD: "appends c \<Longrightarrow> e \<in> set (trace s) \<Longrightarrow> e \<in> set (trace (snd (c s)))"
proof -
  assume a: "appends c" and e: "e \<in> set (trace s)"
  from a obtain t where "trace (snd (c s)) = trace s @ t" by (auto simp: appends_def)
  with e show ?thesis by simp
qed

lemma appends_skip: "appends skip"
  by (simp add: appends_def skip_def)

lemma appends_abort: "appends (abort x)"
  by (simp add: appends_def abort_def)

lemma appends_assign: "(\<And>s. trace (g s) = trace s) \<Longrightarrow> appends (assign g)"
  by (simp add: appends_def assign_def)

lemma appends_log: "appends (log e)"
  by (simp add: appends_def log_def)

lemma appends_call: "appends (call env e)"
  by (simp add: appends_def call_def)

lemma appends_if_then: "appends c \<Longrightarrow> appends (if_then b c)"
  by (simp add: appends_def if_then_apply)

lemma appends_block: "list_all appends cs \<Longrightarrow> appends (block cs)"
  unfolding appends_def
proof
  fix s
  assume a: "list_all (\<lambda>c. \<forall>s. \<exists>t. trace (snd (c s)) = trace s @ t) cs"
  show "\<exists>t. trace (snd (block cs s)) = trace s @ t"
  proof (rule block_invariant [where P = "\<lambda>s'. \<exists>t. trace s' = trace s @ t"])
    show "\<exists>t. trace s = trace s @ t" by simp
  next
    fix c :: "'a proc_scheme comp" and s' :: "'a proc_scheme"
    assume c: "c \<in> set cs" and "\<exists>t. trace s' = trace s @ t"
    then obtain t where t: "trace s' = trace s @ t" by blast
    from a c obtain u where "trace (snd (c s')) = trace s' @ u"
      by (auto simp: list_all_iff)
    with t show "\<exists>t. trace (snd (c s')) = trace s @ t" by simp
  qed
qed

lemma appends_try_catch_std:
  assumes "appends b" and "\<And>w. appends (h w)"
  shows "appends (try_catch_std b h)"
  unfolding appends_def
proof
  fix s
  obtain r s' where p: "b s = (r, s')" by (cases "b s")
  from assms(1) p obtain t where t: "trace s' = trace s @ t"
    by (auto simp: appends_def dest: spec [of _ s])
  have h: "\<exists>u. trace (snd (h w s')) = trace s @ u" for w
  proof -
    from assms(2) [of w] obtain u where "trace (snd (h w s')) = trace s' @ u"
      by (auto simp: appends_def)
    with t show ?thesis by simp
  qed
  from p t h show "\<exists>t. trace (snd (try_catch_std b h s)) = trace s @ t"
    by (auto simp: try_catch_std_def split: option.splits abrupt.splits exn.splits)
qed

lemma appends_exit_process: "appends (exit_process n)"
  by (simp add: appends_def exit_process_def log_def abort_def)

lemma appends_critical_box: "appends (critical_box env m)"
  by (simp add: appends_def critical_box_def call_def)

lemmas appends_intros =
  appends_skip appends_abort appends_assign appends_log appends_call
  appends_if_then appends_block appends_try_catch_std
  appends_exit_process appends_critical_box

lemma block_passes:
  assumes "fst (block cs s) = None" and "c \<in> set cs"
    and "\<And>s. fst (c s) = None \<Longrightarrow> e \<in> set (trace (snd (c s)))"
    and "list_all appends cs"
  shows "e \<in> set (trace (snd (block cs s)))"
  using assms(1,2,4)
proof (induction cs arbitrary: s)
  case Nil
  then show ?case by simp
next
  case (Cons d ds)
  obtain r s' where p: "d s = (r, s')" by (cases "d s")
  from Cons.prems(1) p have r: "r = None" by (cases r) simp_all
  with Cons.prems(1) p have rest: "fst (block ds s') = None" by simp
  from Cons.prems(3) have ds: "list_all appends ds" by simp
  have eq: "block (d # ds) s = block ds s'" using p r by simp
  show ?case
  proof (cases "c = d")
    case True
    with assms(3) [of s] p r have "e \<in> set (trace s')" by simp
    from appendsD [OF appends_block [OF ds] this] eq show ?thesis by simp
  next
    case False
    with Cons.prems(2) have "c \<in> set ds" by simp
    from Cons.IH [OF rest this ds] eq show ?thesis by simp
  qed
qed

lemma main_wallet_ipc_appends: "appends (main_wallet_ipc env st)"
  unfolding main_wallet_ipc_def createPaymentServer_def
  by (auto intro!: appends_intros)

lemma main_wallet_ipc_probes:
  assumes "fst (main_wallet_ipc env st s) = None"
  shows "Startup (PaymentServer_ipcSendCommand ''nbx:show'')
           \<in> set (trace (snd (main_wallet_ipc env st s)))"
  using assms unfolding main_wallet_ipc_def
proof (rule block_passes
         [where c = "call env (Startup (PaymentServer_ipcSendCommand ''nbx:show''))"])
  show "Startup (PaymentServer_ipcSendCommand ''nbx:show'')
          \<in> set (trace (snd (call env (Startup (PaymentServer_ipcSendCommand ''nbx:show'')) s)))"
    for s :: BitcoinApplication
    by (simp add: call_def)
qed (auto intro!: appends_intros simp: createPaymentServer_def)

lemma main_startup_probes:
  assumes "ENABLE_WALLET env" and "fst (main_startup env st s) = None"
  shows "Startup (PaymentServer_ipcSendCommand ''nbx:show'')
           \<in> set (trace (snd (main_startup env st s)))"
  using assms(2) unfolding main_startup_def
proof (rule block_passes [where c = "if_then (ENABLE_WALLET env) (main_wallet_ipc env st)"])
  show "Startup (PaymentServer_ipcSendCommand ''nbx:show'')
          \<in> set (trace (snd (if_then (ENABLE_WALLET env) (main_wallet_ipc env st) s)))"
    if "fst (if_then (ENABLE_WALLET env) (main_wallet_ipc env st) s) = None" for s
    using that assms(1) main_wallet_ipc_probes [of env st s] by (simp add: if_then_apply)
qed (auto intro!: appends_intros main_wallet_ipc_appends
       simp: createOptionsModel_def createSplashScreen_def)

text \<open>
  C6, as the code has it. The startup steps of \<^verbatim>\<open>main\<close> create no main window, no timer
  and no worker thread, whatever the collaborators answer, and in a wallet build they
  cannot complete without having sent \<^verbatim>\<open>nbx:show\<close>: the window, the timer and the thread
  come after the probe. When another instance answers the probe the run ends inside the
  startup steps. The probe itself comes after the data directory is picked and the
  configuration file is read: when no call throws and the startup answers are the usual
  ones, the process calls \<^verbatim>\<open>exit(0)\<close> right after the probe, with the listed calls before
  it.
\<close>

theorem single_instance_probe_placement:
  "Alloc new_BitcoinGUI \<notin> set (trace (snd (main_startup env st BitcoinApplication_ctor)))
   \<and> Alloc new_QTimer \<notin> set (trace (snd (main_startup env st BitcoinApplication_ctor)))
   \<and> Alloc new_QThread \<notin> set (trace (snd (main_startup env st BitcoinApplication_ctor)))
   \<and> (ENABLE_WALLET env \<and> main_startup env st BitcoinApplication_ctor = (None, a0) \<longrightarrow>
        Startup (PaymentServer_ipcSendCommand ''nbx:show'') \<in> set (trace a0))
   \<and> (ENABLE_WALLET env \<and> ipcSendCommand_rv st ''nbx:show'' \<longrightarrow>
        fst (main_startup env st BitcoinApplication_ctor) \<noteq> None
        \<and> main env st evs = Some (main_startup env st BitcoinApplication_ctor))
   \<and> ((\<forall>e. throws env e = None) \<and> ENABLE_WALLET env
        \<and> \<not> help_requested st \<and> pickDataDirectory_rv st \<and> datadir_is_directory st
        \<and> SelectParamsFromCommandLine_rv st \<and> \<not> networkStyle_isNull st
        \<and> masternodeConfig_read_rv st \<and> \<not> ipcSendCommandLine_rv st
        \<and> ipcSendCommand_rv st ''nbx:show'' \<longrightarrow>
        main env st evs =
          Some (Some (ProcessExit 0),
                BitcoinApplication_ctor
                  \<lparr>trace :=
                     [Startup install_fault_handlers, Startup SetupEnvironment,
                      Startup ParseParameters, Startup (Q_INIT_RESOURCE ''nbx_locale''),
                      Startup (Q_INIT_RESOURCE ''nbx'')]
                     @ (if Q_OS_MAC env \<and> GetBoolArg env ''-hide'' False
                        then [Startup (qputenv ''QT_MAC_DISABLE_FOREGROUND_APPLICATION_TRANSFORM''
                                         ''1'')]
                        else [])
                     @ [Alloc new_BitcoinApplication, Startup qt_application_setup,
                        Startup initTranslations, Startup Intro_pickDataDirectory,
                        Startup ReadConfigFile, Startup PaymentServer_ipcParseCommandLine,
                        Startup NetworkStyle_instantiate, Startup initTranslations,
                        Startup masternodeConfig_read, Startup PaymentServer_ipcSendCommandLine]
                     @ (if WIN32 env then [Startup AllowSetForegroundWindow] else [])
                     @ [Startup (PaymentServer_ipcSendCommand ''nbx:show''),
                        Gui (exit_call 0)]\<rparr>))"
proof -
  have c1: "Alloc new_BitcoinGUI \<notin> set (trace (snd (main_startup env st BitcoinApplication_ctor)))"
    and c2: "Alloc new_QTimer \<notin> set (trace (snd (main_startup env st BitcoinApplication_ctor)))"
    and c3: "Alloc new_QThread \<notin> set (trace (snd (main_startup env st BitcoinApplication_ctor)))"
    by (rule main_startup_creates_nothing, simp)+
  have c4: "Startup (PaymentServer_ipcSendCommand ''nbx:show'') \<in> set (trace a0)"
    if "ENABLE_WALLET env" and "main_startup env st BitcoinApplication_ctor = (None, a0)"
    using main_startup_probes [OF that(1), of st BitcoinApplication_ctor] that(2) by simp
  have c5: "fst (main_startup env st BitcoinApplication_ctor) \<noteq> None
        \<and> main env st evs = Some (main_startup env st BitcoinApplication_ctor)"
    if "ENABLE_WALLET env" and "ipcSendCommand_rv st ''nbx:show''"
    using startup_ends_at_probe [OF that] main_ends_in_startup by blast
  note e = main_startup_probe_answered [of env st]
  have c6: "main env st evs = Some (main_startup env st BitcoinApplication_ctor)"
    if "ENABLE_WALLET env" and "ipcSendCommand_rv st ''nbx:show''"
    using c5 [OF that] by simp
  from c1 c2 c3 c4 c5 show ?thesis
    by (intro conjI impI) (simp_all add: c6 e)
qed

theorem single_instance_probe_placement_witness:
  "(\<forall>e. throws quiet_env e = None) \<and> ENABLE_WALLET quiet_env
   \<and> \<not> help_requested answered_startup \<and> pickDataDirectory_rv answered_startup
   \<and> datadir_is_directory answered_startup \<and> SelectParamsFromCommandLine_rv answered_startup
   \<and> \<not> networkStyle_isNull answered_startup \<and> masternodeConfig_read_rv answered_startup
   \<and> \<not> ipcSendCommandLine_rv answered_startup \<and> ipcSendCommand_rv answered_startup ''nbx:show''
   \<and> main quiet_env answered_startup [] =
       Some (Some (ProcessExit 0),
             BitcoinApplication_ctor
               \<lparr>trace :=
                  [Startup install_fault_handlers, Startup SetupEnvironment,
                   Startup ParseParameters, Startup (Q_INIT_RESOURCE ''nbx_locale''),
                   Startup (Q_INIT_RESOURCE ''nbx''),
                   Alloc new_BitcoinApplication, Startup qt_application_setup,
                   Startup initTranslations, Startup Intro_pickDataDirectory,
                   Startup ReadConfigFile, Startup PaymentServer_ipcParseCommandLine,
                   Startup NetworkStyle_instantiate, Startup initTranslations,
                   Startup masternodeConfig_read, Startup PaymentServer_ipcSendCommandLine,
                   Startup (PaymentServer_ipcSendCommand ''nbx:show''),
                   Gui (exit_call 0)]\<rparr>)
   \<and> fst (main_startup quiet_env plain_startup BitcoinApplication_ctor) = None
   \<and> Startup (PaymentServer_ipcSendCommand ''nbx:show'')
       \<in> set (trace (snd (main_startup quiet_env plain_startup BitcoinApplication_ctor)))"
proof -
  have h: "(\<forall>e. throws quiet_env e = None) \<and> ENABLE_WALLET quiet_env
   \<and> \<not> help_requested answered_startup \<and> pickDataDirectory_rv answered_startup
   \<and> datadir_is_directory answered_startup \<and> SelectParamsFromCommandLine_rv answered_startup
   \<and> \<not> networkStyle_isNull answered_startup \<and> masternodeConfig_read_rv answered_startup
   \<and> \<not> ipcSendCommandLine_rv answered_startup \<and> ipcSendCommand_rv answered_startup ''nbx:show''"
    by (simp add: quiet_env_def answered_startup_def plain_startup_def)
  have q: "\<not> Q_OS_MAC quiet_env" "\<not> WIN32 quiet_env" by (simp_all add: quiet_env_def)
  obtain a0 where n: "main_startup quiet_env plain_startup BitcoinApplication_ctor = (None, a0)"
    using main_startup_quiet by blast
  note p = single_instance_probe_placement
             [where env = quiet_env and st = answered_startup and evs = "[]",
              THEN conjunct2, THEN conjunct2, THEN conjunct2, THEN conjunct2, THEN conjunct2]
  from mp [OF p h] q
  have run: "main quiet_env answered_startup [] =
       Some (Some (ProcessExit 0),
             BitcoinApplication_ctor
               \<lparr>trace :=
                  [Startup install_fault_handlers, Startup SetupEnvironment,
                   Startup ParseParameters, Startup (Q_INIT_RESOURCE ''nbx_locale''),
                   Startup (Q_INIT_RESOURCE ''nbx''),
                   Alloc new_BitcoinApplication, Startup qt_application_setup,
                   Startup initTranslations, Startup Intro_pickDataDirectory,
                   Startup ReadConfigFile, Startup PaymentServer_ipcParseCommandLine,
                   Startup NetworkStyle_instantiate, Startup initTranslations,
                   Startup masternodeConfig_read, Startup PaymentServer_ipcSendCommandLine,
                   Startup (PaymentServer_ipcSendCommand ''nbx:show''),
                   Gui (exit_call 0)]\<rparr>)"
    by simp
  from single_instance_probe_placement
         [where env = quiet_env and st = plain_startup and ?a0.0 = a0] h n
  have "Startup (PaymentServer_ipcSendCommand ''nbx:show'') \<in> set (trace a0)" by blast
  with n h run show ?thesis by simp
qed

text \<open>
  C6 as stated fails: in a run where no instance answers, \<^verbatim>\<open>Intro::pickDataDirectory()\<close> and
  \<^verbatim>\<open>ReadConfigFile\<close> have both been called before the probe, and the payload of the probe
  is \<^verbatim>\<open>nbx:show\<close>.
\<close>

theorem single_instance_probe_placement_counterexample:
  "before (Startup Intro_pickDataDirectory) (Startup (PaymentServer_ipcSendCommand ''nbx:show''))
     (trace (snd (main_startup quiet_env plain_startup BitcoinApplication_ctor)))
   \<and> before (Startup ReadConfigFile) (Startup (PaymentServer_ipcSendCommand ''nbx:show''))
       (trace (snd (main_startup quiet_env plain_startup BitcoinApplication_ctor)))
   \<and> Startup (PaymentServer_ipcSendCommand ''nbx:show'')
       \<in> set (trace (snd (main_startup quiet_env plain_startup BitcoinApplication_ctor)))
   \<and> Startup (PaymentServer_ipcSendCommand ''show'')
       \<notin> set (trace (snd (main_startup quiet_env plain_startup BitcoinApplication_ctor)))"
  by (simp add: main_startup_quiet before_def)


subsection \<open>Runaway exceptions\<close>

lemma app_handler_eq:
  "BitcoinApplication_handleRunawayException env message a =
     (case throws env (if WIN32 env then Gui (MessageBoxW message ''Netbox.Wallet exception'')
                       else Gui (QMessageBox_critical ''Netbox.Wallet exception'' message)) of
        None \<Rightarrow>
          (map_option Throw (throws env (Gui (QCoreApplication_exit EXIT_FAILURE))),
           a\<lparr>trace := trace a @
                [if WIN32 env then Gui (MessageBoxW message ''Netbox.Wallet exception'')
                 else Gui (QMessageBox_critical ''Netbox.Wallet exception'' message),
                 Gui (QCoreApplication_exit EXIT_FAILURE)]\<rparr>)
      | Some x \<Rightarrow>
          (Some (Throw x),
           a\<lparr>trace := trace a @
                [if WIN32 env then Gui (MessageBoxW message ''Netbox.Wallet exception'')
                 else Gui (QMessageBox_critical ''Netbox.Wallet exception'' message)]\<rparr>))"
  by (simp add: BitcoinApplication_handleRunawayException_def showErrorMessage_def
        step_defs split: option.splits)

lemma app_handler_returns:
  "fst (BitcoinApplication_handleRunawayException env message a) \<noteq> Some (ProcessExit n)"
  by (simp add: app_handler_eq split: option.splits)

lemma main_runaway_quiet:
  "main quiet_env plain_startup
     [(Slot_handleRunawayException ''EXCEPTION in Runaway exception'', quiet_env)] =
   Some (Some (Return 0),
      \<lparr>trace =
         [Startup install_fault_handlers, Startup SetupEnvironment,
          Startup ParseParameters, Startup (Q_INIT_RESOURCE ''nbx_locale''),
          Startup (Q_INIT_RESOURCE ''nbx''), Alloc new_BitcoinApplication,
          Startup qt_application_setup, Startup initTranslations,
          Startup Intro_pickDataDirectory, Startup ReadConfigFile,
          Startup PaymentServer_ipcParseCommandLine,
          Startup NetworkStyle_instantiate, Startup initTranslations,
          Startup masternodeConfig_read,
          Startup PaymentServer_ipcSendCommandLine,
          Startup (PaymentServer_ipcSendCommand ''nbx:show''),
          Alloc new_PaymentServer, Startup install_event_filters,
          Startup qInstallMessageHandler, Alloc new_OptionsModel,
          Alloc new_SplashScreen, Gui splash_show,
          Alloc new_BitcoinGUI, Alloc new_QTimer, Gui (pollShutdownTimer_start 200),
          qDebug ''requestInitialize'' '': Requesting initialize'',
          Alloc new_QThread, Alloc new_BitcoinCore, Gui executor_moveToThread,
          Gui coreThread_start, Emit requestedInitialize,
          Gui (QMessageBox_critical ''Netbox.Wallet exception''
                 ''EXCEPTION in Runaway exception''),
          Gui (QCoreApplication_exit 1)],
       coreThread = Some (), optionsModel = Some (), clientModel = None,
       window = Some (),
       pollShutdownTimer = Some \<lparr>isActive = True, interval = 200\<rparr>,
       shutdownMonitor = None, paymentServer = Some (), walletModel = None,
       shutdownAllowed = True, returnValue = 0\<rparr>)"
proof -
  have h: "BitcoinApplication_handleRunawayException quiet_env m a =
             (None, a\<lparr>trace := trace a @
                [Gui (QMessageBox_critical ''Netbox.Wallet exception'' m),
                 Gui (QCoreApplication_exit 1)]\<rparr>)" for m a
    by (simp add: app_handler_eq EXIT_FAILURE_def quiet_env_def)
  show ?thesis
    by (simp add: main_def main_try_def main_startup_quiet main_before_exec_quiet h
          getReturnValue_def)
qed

lemma main_catch_returns:
  "map_option (\<lambda>r. (fst r, drop 22 (trace (snd r))))
     (main (quiet_env\<lparr>throws :=
              (\<lambda>e. if e = Alloc new_BitcoinGUI then Some (StdException ''bad'') else None)\<rparr>)
        plain_startup []) =
   Some (Some (Return 0),
         [Alloc new_BitcoinGUI, Engine (PrintExceptionContinue (Some ''bad'') ''main''),
          Gui (QMessageBox_critical ''Netbox.Wallet exception'' ''EXCEPTION in main''),
          Gui (QCoreApplication_exit 1)])"
  by (simp add: main_def main_try_def main_catch_def getReturnValue_def
        BitcoinApplication_handleRunawayException_def showErrorMessage_def EXIT_FAILURE_def
        app_defs)

text \<open>
  C8 fails on the code. The executor does its part: in the run below \<^verbatim>\<open>AppInit2\<close> throws, and
  \<^verbatim>\<open>initialize\<close> answers with \<^verbatim>\<open>PrintExceptionContinue\<close> and the signal \<^verbatim>\<open>runawayException\<close> and
  returns. The controller's slot for that signal shows the message, but it never ends the
  process, whatever its surroundings answer: its \<^verbatim>\<open>exit(EXIT_FAILURE)\<close> is
  \<^verbatim>\<open>QCoreApplication::exit\<close>, after which the slot returns. The event loop is left, and
  \<^verbatim>\<open>main\<close> returns \<^verbatim>\<open>returnValue\<close>: the exit status of the process is 0, not
  \<^verbatim>\<open>EXIT_FAILURE\<close>.
\<close>

theorem runaway_exception_exit_status:
  "fst (BitcoinApplication_handleRunawayException env message a) \<noteq> Some (ProcessExit n)
   \<and> BitcoinCore_initialize
       (quiet_env\<lparr>throws :=
          (\<lambda>e. if e = Engine AppInit2 then Some (StdException ''boom'') else None)\<rparr>)
       BitcoinCore_ctor =
     (None, \<lparr>trace = [qDebug ''initialize'' '': Running AppInit2 in thread'', Engine AppInit2,
                      Engine (PrintExceptionContinue (Some ''boom'') ''Runaway exception''),
                      Emit (runawayException ''EXCEPTION in Runaway exception'')],
             execute_restart = Some True\<rparr>)
   \<and> BitcoinApplication_handleRunawayException quiet_env ''EXCEPTION in Runaway exception''
       running_app =
     (None,
      running_app\<lparr>trace :=
        [Gui (QMessageBox_critical ''Netbox.Wallet exception'' ''EXCEPTION in Runaway exception''),
         Gui (QCoreApplication_exit 1)]\<rparr>)
   \<and> map_option (\<lambda>r. fst r)
       (main quiet_env plain_startup
          [(Slot_handleRunawayException ''EXCEPTION in Runaway exception'', quiet_env)])
     = Some (Some (Return 0))
   \<and> map_option (\<lambda>r. exit_status (fst r))
       (main quiet_env plain_startup
          [(Slot_handleRunawayException ''EXCEPTION in Runaway exception'', quiet_env)])
     = Some (Some 0)
   \<and> EXIT_FAILURE = 1"
proof -
  have i: "BitcoinCore_initialize
       (quiet_env\<lparr>throws :=
          (\<lambda>e. if e = Engine AppInit2 then Some (StdException ''boom'') else None)\<rparr>)
       BitcoinCore_ctor =
     (None, \<lparr>trace = [qDebug ''initialize'' '': Running AppInit2 in thread'', Engine AppInit2,
                      Engine (PrintExceptionContinue (Some ''boom'') ''Runaway exception''),
                      Emit (runawayException ''EXCEPTION in Runaway exception'')],
             execute_restart = Some True\<rparr>)"
    by (simp add: run_defs)
  have h: "BitcoinApplication_handleRunawayException quiet_env ''EXCEPTION in Runaway exception''
       running_app =
     (None,
      running_app\<lparr>trace :=
        [Gui (QMessageBox_critical ''Netbox.Wallet exception'' ''EXCEPTION in Runaway exception''),
         Gui (QCoreApplication_exit 1)]\<rparr>)"
    by (simp add: app_handler_eq EXIT_FAILURE_def quiet_env_def running_app_def)
  have m: "map_option (\<lambda>r. fst r)
       (main quiet_env plain_startup
          [(Slot_handleRunawayException ''EXCEPTION in Runaway exception'', quiet_env)])
     = Some (Some (Return 0))"
    by (simp add: main_runaway_quiet)
  have x: "map_option (\<lambda>r. exit_status (fst r))
       (main quiet_env plain_startup
          [(Slot_handleRunawayException ''EXCEPTION in Runaway exception'', quiet_env)])
     = Some (Some 0)"
    by (simp add: main_runaway_quiet)
  have f: "EXIT_FAILURE = 1" by (fact EXIT_FAILURE_def)
  from app_handler_returns [of env message a n] i h m x f
  show ?thesis by - (intro conjI; assumption)
qed

end
